theory Spec2Isabelle
  imports Complex_Main "HOL-Library.Sublist"
begin

section \<open>Values the server-side code handles\<close>

text \<open>
  The notes frontend talks to a remote HTTP backend. The server-side helpers
  (the auth helper and the edge middleware) read the backend's answer as untyped JSON, so
  a JSON value is modelled as it is at run time. \<open>JUndefined\<close> is what JavaScript gives
  for a property that is absent; \<open>JNull\<close> is JSON's null. A JSON number is a finite
  double, hence a rational.
\<close>

datatype json =
    JUndefined
  | JNull
  | JBool bool
  | JNum rat
  | JStr string
  | JArr "json list"
  | JObj "(string \<times> json) list"

text \<open>What a rejected promise or a throw carries, where only its kind matters.\<close>

datatype exn = NetworkError | SyntaxError | TypeError | OtherError string

text \<open>JavaScript truthiness of a JSON value (\<open>!v\<close> is its negation).\<close>

fun truthy :: "json \<Rightarrow> bool" where
  "truthy JUndefined = False"
| "truthy JNull = False"
| "truthy (JBool b) = b"
| "truthy (JNum n) = (n \<noteq> 0)"
| "truthy (JStr s) = (s \<noteq> [])"
| "truthy (JArr xs) = True"
| "truthy (JObj kvs) = True"

text \<open>
  Property access \<open>v.k\<close> for the keys the code reads (\<open>data\<close>, \<open>user\<close>): on
  \<open>undefined\<close> and \<open>null\<close> it throws a TypeError; on an object it is the value of the key
  (the last one when the key is repeated, as \<open>JSON.parse\<close> keeps it) or \<open>undefined\<close>; on
  any other value these keys are absent.
\<close>

fun js_get :: "json \<Rightarrow> string \<Rightarrow> exn + json" where
  "js_get JUndefined k = Inl TypeError"
| "js_get JNull k = Inl TypeError"
| "js_get (JObj kvs) k = (case map_of (rev kvs) k of None \<Rightarrow> Inr JUndefined | Some v \<Rightarrow> Inr v)"
| "js_get v k = Inr JUndefined"

text \<open>
  The \<open>Response\<close> of \<open>fetch\<close>: its status and its body as \<open>response.json()\<close> reads it
  (\<open>None\<close> when the body is not JSON, where \<open>json()\<close> rejects). \<open>response.ok\<close> is true
  for the statuses 200 to 299.
\<close>

record Response =
  status :: nat
  json_body :: "json option"

definition ok :: "Response \<Rightarrow> bool" where
  "ok response = (200 \<le> status response \<and> status response \<le> 299)"

text \<open>
  The backend's profile endpoint, as the server-side code sees it: given the Cookie
  header of the request to \<open>/auth/profile\<close>, \<open>fetch\<close> rejects or resolves with a response.
\<close>

type_synonym profile_endpoint = "string \<Rightarrow> exn + Response"

section \<open>The server auth helper (src/unnamed/part\_005)\<close>

text \<open>
  \<open>AuthResult\<close>: the user as found in the response body (an untyped JSON value at run
  time; \<open>JNull\<close> is the code's \<open>null\<close>) and the flag.
\<close>

record AuthResult =
  user :: json
  isAuthenticated :: bool

definition unauthenticated :: AuthResult where
  "unauthenticated = \<lparr>user = JNull, isAuthenticated = False\<rparr>"

text \<open>
  \<open>encodeURIComponent\<close>: letters, digits and \<open>- _ . ! ~ * ' ( )\<close> stand as they are;
  any other character is written as \<open>%XX\<close> for each byte of its UTF-8 encoding (one
  byte below 128, two bytes from 128 to 255), in upper-case hexadecimal.
\<close>

definition uri_unreserved :: "char \<Rightarrow> bool" where
  "uri_unreserved c =
     (let n = (of_char c :: nat) in
      (65 \<le> n \<and> n \<le> 90) \<or> (97 \<le> n \<and> n \<le> 122) \<or> (48 \<le> n \<and> n \<le> 57) \<or>
      n \<in> {45, 95, 46, 33, 126, 42, 39, 40, 41})"

definition hex_digit :: "nat \<Rightarrow> char" where
  "hex_digit n = (if n < 10 then char_of (48 + n) else char_of (55 + n))"

definition percent_byte :: "nat \<Rightarrow> string" where
  "percent_byte b = [CHR ''%'', hex_digit (b div 16), hex_digit (b mod 16)]"

definition encodeURIComponent :: "string \<Rightarrow> string" where
  "encodeURIComponent s =
     concat (map (\<lambda>c. let n = (of_char c :: nat) in
                        if uri_unreserved c then [c]
                        else if n < 128 then percent_byte n
                        else percent_byte (192 + n div 64) @ percent_byte (128 + n mod 64)) s)"

text \<open>
  The cookie store of \<open>cookies()\<close> is a list of name and value; \<open>get\<close> finds a cookie by
  name (a cookie object is truthy whatever its value), \<open>toString\<close> writes each cookie
  as its name, \<open>=\<close> and its value percent-encoded, joined by \<open>; \<close>.
\<close>

type_synonym cookie_store = "(string \<times> string) list"

fun cookie_toString :: "cookie_store \<Rightarrow> string" where
  "cookie_toString [] = []"
| "cookie_toString [(n, v)] = n @ ''='' @ encodeURIComponent v"
| "cookie_toString ((n, v) # c # cs) =
     n @ ''='' @ encodeURIComponent v @ ''; '' @ cookie_toString (c # cs)"

text \<open>
  The body of the \<open>try\<close> block of \<open>getServerAuth\<close>. Each awaited step can throw:
  \<open>cookies()\<close>, \<open>fetch\<close>, \<open>response.json()\<close> and the property accesses of
  \<open>data.data.user\<close>. The second component is the log of requests sent (the Cookie header
  of each), so that "no network request" can be stated.
\<close>

definition getServerAuth_try ::
  "exn + cookie_store \<Rightarrow> profile_endpoint \<Rightarrow> (exn + AuthResult) \<times> string list" where
  "getServerAuth_try cookies fetch_profile =
     (case cookies of
        Inl e \<Rightarrow> (Inl e, [])
      | Inr cookieStore \<Rightarrow>
          (case map_of cookieStore ''authToken'' of
             None \<Rightarrow> (Inr unauthenticated, [])
           | Some authToken \<Rightarrow>
               (let sent = [cookie_toString cookieStore] in
                case fetch_profile (cookie_toString cookieStore) of
                  Inl e \<Rightarrow> (Inl e, sent)
                | Inr response \<Rightarrow>
                    if \<not> ok response then (Inr unauthenticated, sent)
                    else
                      (case json_body response of
                         None \<Rightarrow> (Inl SyntaxError, sent)
                       | Some data \<Rightarrow>
                           (case js_get data ''data'' of
                              Inl e \<Rightarrow> (Inl e, sent)
                            | Inr d \<Rightarrow>
                                (case js_get d ''user'' of
                                   Inl e \<Rightarrow> (Inl e, sent)
                                 | Inr u \<Rightarrow>
                                     (Inr \<lparr>user = u, isAuthenticated = True\<rparr>, sent)))))))"

text \<open>\<open>getServerAuth\<close>: the \<open>try\<close> block under its \<open>catch\<close>, which returns the
  unauthenticated result for whatever was thrown.\<close>

definition getServerAuth ::
  "exn + cookie_store \<Rightarrow> profile_endpoint \<Rightarrow> (exn + AuthResult) \<times> string list" where
  "getServerAuth cookies fetch_profile =
     (case getServerAuth_try cookies fetch_profile of
        (Inl e, sent) \<Rightarrow> (Inr unauthenticated, sent)
      | (Inr r, sent) \<Rightarrow> (Inr r, sent))"

text \<open>
  \<open>redirect(path)\<close> of next/navigation never returns: it throws the framework's
  redirect signal. A helper that may redirect therefore ends in one of three ways.
\<close>

datatype 'a guarded = RedirectTo string | Returned 'a | Thrown exn

definition requireAuth_of :: "AuthResult \<Rightarrow> json guarded" where
  "requireAuth_of r =
     (if \<not> isAuthenticated r \<or> \<not> truthy (user r) then RedirectTo ''/signin''
      else Returned (user r))"

definition requireAuth :: "exn + cookie_store \<Rightarrow> profile_endpoint \<Rightarrow> json guarded" where
  "requireAuth cookies fetch_profile =
     (case fst (getServerAuth cookies fetch_profile) of
        Inl e \<Rightarrow> Thrown e
      | Inr r \<Rightarrow> requireAuth_of r)"

definition redirectIfAuthenticated_of :: "AuthResult \<Rightarrow> unit guarded" where
  "redirectIfAuthenticated_of r =
     (if isAuthenticated r then RedirectTo ''/dashboard'' else Returned ())"

definition redirectIfAuthenticated ::
  "exn + cookie_store \<Rightarrow> profile_endpoint \<Rightarrow> unit guarded" where
  "redirectIfAuthenticated cookies fetch_profile =
     (case fst (getServerAuth cookies fetch_profile) of
        Inl e \<Rightarrow> Thrown e
      | Inr r \<Rightarrow> redirectIfAuthenticated_of r)"

section \<open>The server-rendered pages\<close>

text \<open>
  \<open>DashboardPage\<close> (src/app/dashboard/page.tsx), \<open>SignInPage\<close> (src/unnamed/part\_002)
  and \<open>SignUpPage\<close> (src/app/signup/page.tsx). What a page function produces: the
  client component it renders (the dashboard client with the user as its \<open>initialUser\<close>
  prop), or the redirect or error that stopped it.
\<close>

datatype component = DashboardClient json | SignInClient | SignUpClient

datatype page_result = Rendered component | PageRedirect string | PageError exn

definition DashboardPage :: "exn + cookie_store \<Rightarrow> profile_endpoint \<Rightarrow> page_result" where
  "DashboardPage cookies fetch_profile =
     (case requireAuth cookies fetch_profile of
        RedirectTo p \<Rightarrow> PageRedirect p
      | Thrown e \<Rightarrow> PageError e
      | Returned u \<Rightarrow> Rendered (DashboardClient u))"

definition SignInPage :: "exn + cookie_store \<Rightarrow> profile_endpoint \<Rightarrow> page_result" where
  "SignInPage cookies fetch_profile =
     (case redirectIfAuthenticated cookies fetch_profile of
        RedirectTo p \<Rightarrow> PageRedirect p
      | Thrown e \<Rightarrow> PageError e
      | Returned u \<Rightarrow> Rendered SignInClient)"

definition SignUpPage :: "exn + cookie_store \<Rightarrow> profile_endpoint \<Rightarrow> page_result" where
  "SignUpPage cookies fetch_profile =
     (case redirectIfAuthenticated cookies fetch_profile of
        RedirectTo p \<Rightarrow> PageRedirect p
      | Thrown e \<Rightarrow> PageError e
      | Returned u \<Rightarrow> Rendered SignUpClient)"

section \<open>The edge middleware\<close>

text \<open>
  A middleware answers with a redirect to a URL or lets the request through
  (\<open>NextResponse.next()\<close>). \<open>new URL(path, request.url)\<close> keeps the origin of the request
  and takes the path given, with no query; the model keeps the path and the query
  parameters set afterwards.
\<close>

record URL =
  url_pathname :: string
  searchParams :: "(string \<times> string) list"

datatype NextResponse = Redirect URL | Next

record NextRequest =
  pathname :: string
  cookie :: "string option"

definition new_URL :: "string \<Rightarrow> URL" where
  "new_URL path = \<lparr>url_pathname = path, searchParams = []\<rparr>"

subsection \<open>src/middleware.ts: the root path only\<close>

definition middleware :: "NextRequest \<Rightarrow> NextResponse" where
  "middleware request =
     (if pathname request = ''/'' then Redirect (new_URL ''/signin'') else Next)"

text \<open>Its \<open>config.matcher\<close> is \<open>["/"]\<close>: the framework runs it on requests for the root
  only. The function itself lets every other path through.\<close>

subsection \<open>src/unnamed/part\_006: the middleware that checks authentication\<close>

text \<open>
  \<open>checkAuthentication\<close>: the Cookie header of the request (\<open>""\<close> when absent) is
  forwarded to the profile endpoint; a rejected \<open>fetch\<close> or a body that is not JSON
  lands in the \<open>catch\<close>. The presence test on \<open>authToken=\<close> is computed and not used
  (its early return is commented out in the source).
\<close>

definition checkAuthentication :: "profile_endpoint \<Rightarrow> NextRequest \<Rightarrow> bool" where
  "checkAuthentication fetch_profile request =
     (let cookieHeader = (case cookie request of None \<Rightarrow> [] | Some c \<Rightarrow> c) in
      case fetch_profile cookieHeader of
        Inl e \<Rightarrow> False
      | Inr response \<Rightarrow>
          (case json_body response of
             None \<Rightarrow> False
           | Some data \<Rightarrow>
               if status response = 401 then False
               else ok response \<and> status response = 200))"

definition protectedRoutes :: "string list" where
  "protectedRoutes = [''/dashboard'']"

definition authRoutes :: "string list" where
  "authRoutes = [''/signin'', ''/signup'']"

definition middleware_006 :: "profile_endpoint \<Rightarrow> NextRequest \<Rightarrow> NextResponse" where
  "middleware_006 fetch_profile request =
     (let isProtectedRoute = list_ex (\<lambda>route. prefix route (pathname request)) protectedRoutes;
          isAuthRoute = list_ex (\<lambda>route. prefix route (pathname request)) authRoutes;
          isAuthenticated = checkAuthentication fetch_profile request
      in
        if isProtectedRoute \<and> \<not> isAuthenticated then
          Redirect ((new_URL ''/signin'')\<lparr>searchParams := [(''redirect'', pathname request)]\<rparr>)
        else if isAuthRoute \<and> isAuthenticated then Redirect (new_URL ''/dashboard'')
        else if pathname request = ''/'' then
          (if isAuthenticated then Redirect (new_URL ''/dashboard'')
           else Redirect (new_URL ''/signin''))
        else Next)"

text \<open>The path a response sends the browser to, if it redirects.\<close>

fun redirect_path :: "NextResponse \<Rightarrow> string option" where
  "redirect_path (Redirect u) = Some (url_pathname u)"
| "redirect_path Next = None"

section \<open>The entity types\<close>

text \<open>
  The interfaces the code declares, one record each. Field names are prefixed where two
  interfaces share a name (\<open>id\<close>, \<open>email\<close>, \<open>name\<close>, \<open>createdAt\<close>).
  \<open>User\<close> is the interface of the server auth helper (src/unnamed/part\_005) and, with
  the same fields, of the dashboard client (src/unnamed/part\_000); \<open>User_api\<close> is the
  \<open>User\<close> that the API service exports (src/unnamed/part\_004), which also has \<open>dob\<close>;
  \<open>Note\<close> is the API service's note.
\<close>

record User =
  user_id :: string
  user_email :: string
  user_name :: string
  user_isVerified :: bool
  user_createdAt :: string

record User_api =
  api_id :: string
  api_email :: string
  api_name :: string
  api_dob :: string
  api_isVerified :: bool
  api_createdAt :: string

record Note =
  note_id :: string
  title :: string
  content :: string
  note_createdAt :: string
  updatedAt :: string

text \<open>
  The DTOs as the specification lists them, \<open>User{id,email,name,isVerified,createdAt}\<close>
  and \<open>Note{id,title,content,createdAt,updatedAt}\<close>, as tuples of the field values, and
  the reading of each record as such a tuple.
\<close>

type_synonym spec_User = "string \<times> string \<times> string \<times> bool \<times> string"

type_synonym spec_Note = "string \<times> string \<times> string \<times> string \<times> string"

definition spec_of_User :: "User \<Rightarrow> spec_User" where
  "spec_of_User u = (user_id u, user_email u, user_name u, user_isVerified u, user_createdAt u)"

definition spec_of_User_api :: "User_api \<Rightarrow> spec_User" where
  "spec_of_User_api u = (api_id u, api_email u, api_name u, api_isVerified u, api_createdAt u)"

definition spec_of_Note :: "Note \<Rightarrow> spec_Note" where
  "spec_of_Note n = (note_id n, title n, content n, note_createdAt n, updatedAt n)"

section \<open>The API service (src/unnamed/part\_004)\<close>

subsection \<open>String.prototype.trim\<close>

text \<open>
  A \<open>char\<close> stands for a code unit below 256. The white space and line terminators of
  JavaScript in that range are TAB, LF, VT, FF, CR, SPACE and NBSP.
\<close>

definition js_whitespace :: "char \<Rightarrow> bool" where
  "js_whitespace c = (of_char c \<in> {9, 10, 11, 12, 13, 32, 160 :: nat})"

definition trim :: "string \<Rightarrow> string" where
  "trim s = rev (dropWhile js_whitespace (rev (dropWhile js_whitespace s)))"

subsection \<open>What axios sends, returns and throws\<close>

text \<open>
  \<open>localStorage\<close> maps keys to strings. A request carries its method (the field \<open>method'\<close>), URL, query
  parameters, JSON payload and headers; the axios instance sets \<open>Content-Type\<close> on every
  request.
\<close>

type_synonym localStorage = "string \<rightharpoonup> string"

record AxiosRequest =
  method' :: string
  url :: string
  params :: "(string \<times> string) list"
  payload :: "json option"
  headers :: "string \<rightharpoonup> string"

definition axios_request :: "string \<Rightarrow> string \<Rightarrow> (string \<times> string) list \<Rightarrow> json option \<Rightarrow> AxiosRequest" where
  "axios_request m u ps body =
     \<lparr>method' = m, url = u, params = ps, payload = body,
      headers = [''Content-Type'' \<mapsto> ''application/json'']\<rparr>"

text \<open>
  \<open>setupRequestInterceptor\<close>: the function installed on the axios instance, run on
  every request before it is sent. \<open>if (token)\<close> is false for a missing key and for the
  empty string.
\<close>

definition setupRequestInterceptor :: "localStorage \<Rightarrow> AxiosRequest \<Rightarrow> AxiosRequest" where
  "setupRequestInterceptor ls config =
     (case ls ''authToken'' of
        None \<Rightarrow> config
      | Some token \<Rightarrow>
          if token \<noteq> [] then config\<lparr>headers := (headers config)(''Authorization'' \<mapsto> ''Bearer '' @ token)\<rparr>
          else config)"

text \<open>
  The body every endpoint answers with, \<open>ApiResponse<T>\<close>, and the axios response
  around it (header names in lower case, as axios gives them).
\<close>

record 'a ApiResponse =
  success :: bool
  message :: "string option"
  data :: "'a option"

record 'a AxiosResponse =
  response_headers :: "string \<rightharpoonup> string"
  response_data :: 'a

text \<open>
  \<open>response_headers\<close> holds the value of each header as the server wrote it. What the
  code reads as \<open>response.headers[name]\<close> is that value without the white space around
  it: the white space around an HTTP field value is not part of the value, and axios
  trims the values of the headers it parses.
\<close>

definition response_header :: "'a AxiosResponse \<Rightarrow> string \<Rightarrow> string option" where
  "response_header response name = map_option trim (response_headers response name)"

text \<open>
  What can be thrown on the client. An axios error carries \<open>error.response\<close>, absent when
  no response was received; the response of a failed request has a status and a body,
  whose \<open>message\<close> the code reads (the body is \<open>None\<close> when it is null or undefined).
  \<open>Error m\<close> is \<open>new Error(m)\<close>, or any other thrown value that is not an axios error;
  \<open>JsError\<close> is an error raised by the language itself.
\<close>

record error_body =
  error_message :: "string option"

record ErrorResponse =
  error_status :: nat
  error_data :: "error_body option"

datatype thrown = AxiosError "ErrorResponse option" | Error string | JsError exn

fun isAxiosError :: "thrown \<Rightarrow> bool" where
  "isAxiosError (AxiosError response) = True"
| "isAxiosError e = False"

text \<open>\<open>m || fallback\<close> on a string that may be undefined: the fallback replaces undefined
  and the empty string.\<close>

definition or_else :: "string option \<Rightarrow> string \<Rightarrow> string" where
  "or_else m fallback = (case m of None \<Rightarrow> fallback | Some s \<Rightarrow> if s = [] then fallback else s)"

text \<open>\<open>error.response?.data?.message\<close>: undefined as soon as a link is missing.\<close>

definition response_data_message :: "ErrorResponse option \<Rightarrow> string option" where
  "response_data_message response =
     (case response of
        None \<Rightarrow> None
      | Some r \<Rightarrow> (case error_data r of None \<Rightarrow> None | Some d \<Rightarrow> error_message d))"

text \<open>\<open>error.response?.data.message\<close>: with a response whose body is null or undefined,
  reading \<open>message\<close> throws a TypeError.\<close>

definition response_data_message_strict :: "ErrorResponse option \<Rightarrow> exn + string option" where
  "response_data_message_strict response =
     (case response of
        None \<Rightarrow> Inr None
      | Some r \<Rightarrow> (case error_data r of None \<Rightarrow> Inl TypeError | Some d \<Rightarrow> Inr (error_message d)))"

text \<open>
  The \<open>catch\<close> block that the service's methods share: an axios error is replaced by a
  plain \<open>Error\<close> with the server's message or the fallback, anything else by a plain
  \<open>Error\<close> with the fallback.
\<close>

definition rethrow :: "string \<Rightarrow> thrown \<Rightarrow> thrown" where
  "rethrow fallback error =
     (case error of
        AxiosError response \<Rightarrow> Error (or_else (response_data_message response) fallback)
      | _ \<Rightarrow> Error fallback)"

text \<open>The \<open>catch\<close> block of \<open>signup\<close>, which reads \<open>data.message\<close> without the \<open>?.\<close>\<close>

definition rethrow_signup :: "thrown \<Rightarrow> thrown" where
  "rethrow_signup error =
     (case error of
        AxiosError response \<Rightarrow>
          (case response_data_message_strict response of
             Inl e \<Rightarrow> JsError e
           | Inr m \<Rightarrow> Error (or_else m ''Signup failed''))
      | _ \<Rightarrow> Error ''Signup failed'')"

subsection \<open>The methods\<close>

text \<open>
  A method is run on the current \<open>localStorage\<close> with the outcome of its axios call
  (what the backend and the network do is not the client's to decide, so it is a
  parameter). It yields what the method returns or throws, the new \<open>localStorage\<close>, the
  requests it sent and the URL it assigned to \<open>window.location.href\<close>, if any.
\<close>

record 'a call =
  returned :: "thrown + 'a"
  storage :: localStorage
  requests :: "AxiosRequest list"
  href :: "string option"

record SignupData =
  signup_name :: string
  signup_email :: string
  signup_dob :: string
  signup_otp :: "string option"

record LoginData =
  login_email :: string

record VerifyOTPData =
  verify_email :: string
  verify_otp :: string

record CreateNoteData =
  create_title :: string
  create_content :: string

record UpdateNoteData =
  update_title :: "string option"
  update_content :: "string option"

text \<open>The JSON that axios writes for each payload; a field that is undefined is left out.\<close>

definition json_of_SignupData :: "SignupData \<Rightarrow> json" where
  "json_of_SignupData d =
     JObj ([(''name'', JStr (signup_name d)), (''email'', JStr (signup_email d)),
            (''dob'', JStr (signup_dob d))]
           @ (case signup_otp d of None \<Rightarrow> [] | Some v \<Rightarrow> [(''otp'', JStr v)]))"

definition json_of_LoginData :: "LoginData \<Rightarrow> json" where
  "json_of_LoginData d = JObj [(''email'', JStr (login_email d))]"

definition json_of_VerifyOTPData :: "VerifyOTPData \<Rightarrow> json" where
  "json_of_VerifyOTPData d =
     JObj [(''email'', JStr (verify_email d)), (''otp'', JStr (verify_otp d))]"

definition json_of_CreateNoteData :: "CreateNoteData \<Rightarrow> json" where
  "json_of_CreateNoteData d =
     JObj [(''title'', JStr (create_title d)), (''content'', JStr (create_content d))]"

definition json_of_UpdateNoteData :: "UpdateNoteData \<Rightarrow> json" where
  "json_of_UpdateNoteData d =
     JObj ((case update_title d of None \<Rightarrow> [] | Some v \<Rightarrow> [(''title'', JStr v)])
           @ (case update_content d of None \<Rightarrow> [] | Some v \<Rightarrow> [(''content'', JStr v)]))"

text \<open>A request as the axios instance sends it: through the interceptor.\<close>

definition send :: "localStorage \<Rightarrow> string \<Rightarrow> string \<Rightarrow> (string \<times> string) list \<Rightarrow> json option \<Rightarrow> AxiosRequest" where
  "send ls m u ps body = setupRequestInterceptor ls (axios_request m u ps body)"

definition signup ::
  "localStorage \<Rightarrow> SignupData \<Rightarrow> thrown + ('a ApiResponse) AxiosResponse \<Rightarrow> ('a ApiResponse) call" where
  "signup ls userData outcome =
     \<lparr>returned = (case outcome of
                    Inr response \<Rightarrow> Inr (response_data response)
                  | Inl error \<Rightarrow> Inl (rethrow_signup error)),
      storage = ls,
      requests = [send ls ''POST'' ''/auth/signup'' [] (Some (json_of_SignupData userData))],
      href = None\<rparr>"

text \<open>
  \<open>verifyOTP\<close>: when the response carries an \<open>authorization\<close> header that starts with
  \<open>Bearer \<close>, the rest of the header (\<open>substring(7)\<close>) is stored under \<open>authToken\<close>.
\<close>

definition verifyOTP ::
  "localStorage \<Rightarrow> VerifyOTPData \<Rightarrow> thrown + ('a ApiResponse) AxiosResponse \<Rightarrow> ('a ApiResponse) call" where
  "verifyOTP ls otpData outcome =
     \<lparr>returned = (case outcome of
                    Inr response \<Rightarrow> Inr (response_data response)
                  | Inl error \<Rightarrow> Inl (rethrow ''OTP verification failed'' error)),
      storage = (case outcome of
                   Inr response \<Rightarrow>
                     (case response_header response ''authorization'' of
                        None \<Rightarrow> ls
                      | Some authHeader \<Rightarrow>
                          if authHeader \<noteq> [] \<and> prefix ''Bearer '' authHeader
                          then ls(''authToken'' \<mapsto> drop 7 authHeader)
                          else ls)
                 | Inl error \<Rightarrow> ls),
      requests = [send ls ''POST'' ''/auth/verify-otp'' [] (Some (json_of_VerifyOTPData otpData))],
      href = None\<rparr>"

definition login ::
  "localStorage \<Rightarrow> LoginData \<Rightarrow> thrown + ('a ApiResponse) AxiosResponse \<Rightarrow> ('a ApiResponse) call" where
  "login ls loginData outcome =
     \<lparr>returned = (case outcome of
                    Inr response \<Rightarrow> Inr (response_data response)
                  | Inl error \<Rightarrow> Inl (rethrow ''Login failed'' error)),
      storage = ls,
      requests = [send ls ''POST'' ''/auth/login'' [] (Some (json_of_LoginData loginData))],
      href = None\<rparr>"

definition resendOTP ::
  "localStorage \<Rightarrow> string \<Rightarrow> thrown + ('a ApiResponse) AxiosResponse \<Rightarrow> ('a ApiResponse) call" where
  "resendOTP ls email outcome =
     \<lparr>returned = (case outcome of
                    Inr response \<Rightarrow> Inr (response_data response)
                  | Inl error \<Rightarrow> Inl (rethrow ''Resend OTP failed'' error)),
      storage = ls,
      requests = [send ls ''POST'' ''/auth/resend-otp'' [] (Some (JObj [(''email'', JStr email)]))],
      href = None\<rparr>"

definition getProfile ::
  "localStorage \<Rightarrow> thrown + ('a ApiResponse) AxiosResponse \<Rightarrow> ('a ApiResponse) call" where
  "getProfile ls outcome =
     \<lparr>returned = (case outcome of
                    Inr response \<Rightarrow> Inr (response_data response)
                  | Inl error \<Rightarrow> Inl (rethrow ''Get profile failed'' error)),
      storage = ls,
      requests = [send ls ''GET'' ''/auth/profile'' [] None],
      href = None\<rparr>"

text \<open>\<open>n.toString()\<close> for a page number or a limit: the decimal digits. Page numbers and
  limits are integers that a JavaScript number holds exactly (below \<open>2^53\<close>); the
  dashboard passes 1 and 10.\<close>

fun toString :: "nat \<Rightarrow> string" where
  "toString n =
     (if n < 10 then [char_of (48 + n)]
      else toString (n div 10) @ [char_of (48 + n mod 10)])"

record Pagination =
  currentPage :: nat
  totalPages :: nat
  totalNotes :: nat
  hasNext :: bool
  hasPrev :: bool

record NotesData =
  notes_of :: "Note list"
  pagination :: Pagination

record NoteData =
  note_of :: Note

text \<open>
  \<open>getNotes\<close>: the query has \<open>page\<close> and \<open>limit\<close>, and \<open>search\<close> when it is given and not
  empty. On an axios error with status 401 the method removes the stored token and
  assigns \<open>/signin\<close> to \<open>window.location.href\<close> before it throws; the service runs in the
  browser, where \<open>window\<close> is defined.
\<close>

definition getNotes ::
  "localStorage \<Rightarrow> nat \<Rightarrow> nat \<Rightarrow> string option \<Rightarrow>
     thrown + (NotesData ApiResponse) AxiosResponse \<Rightarrow> (NotesData ApiResponse) call" where
  "getNotes ls page limit search outcome =
     (let is401 = (case outcome of
                     Inl (AxiosError (Some r)) \<Rightarrow> error_status r = 401
                   | _ \<Rightarrow> False)
      in
      \<lparr>returned = (case outcome of
                     Inr response \<Rightarrow> Inr (response_data response)
                   | Inl error \<Rightarrow> Inl (rethrow ''Get notes failed'' error)),
       storage = (if is401 then ls(''authToken'' := None) else ls),
       requests = [send ls ''GET'' ''/notes''
                 ([(''page'', toString page), (''limit'', toString limit)]
                  @ (case search of
                       None \<Rightarrow> []
                     | Some s \<Rightarrow> if s \<noteq> [] then [(''search'', s)] else []))
                 None],
       href = (if is401 then Some ''/signin'' else None)\<rparr>)"

definition createNote ::
  "localStorage \<Rightarrow> CreateNoteData \<Rightarrow>
     thrown + (NoteData ApiResponse) AxiosResponse \<Rightarrow> (NoteData ApiResponse) call" where
  "createNote ls noteData outcome =
     \<lparr>returned = (case outcome of
                    Inr response \<Rightarrow> Inr (response_data response)
                  | Inl error \<Rightarrow> Inl (rethrow ''Create note failed'' error)),
      storage = ls,
      requests = [send ls ''POST'' ''/notes'' [] (Some (json_of_CreateNoteData noteData))],
      href = None\<rparr>"

definition updateNote ::
  "localStorage \<Rightarrow> string \<Rightarrow> UpdateNoteData \<Rightarrow>
     thrown + (NoteData ApiResponse) AxiosResponse \<Rightarrow> (NoteData ApiResponse) call" where
  "updateNote ls i noteData outcome =
     \<lparr>returned = (case outcome of
                    Inr response \<Rightarrow> Inr (response_data response)
                  | Inl error \<Rightarrow> Inl (rethrow ''Update note failed'' error)),
      storage = ls,
      requests = [send ls ''PUT'' (''/notes/'' @ i) [] (Some (json_of_UpdateNoteData noteData))],
      href = None\<rparr>"

definition deleteNote ::
  "localStorage \<Rightarrow> string \<Rightarrow> thrown + ('a ApiResponse) AxiosResponse \<Rightarrow> ('a ApiResponse) call" where
  "deleteNote ls i outcome =
     \<lparr>returned = (case outcome of
                    Inr response \<Rightarrow> Inr (response_data response)
                  | Inl error \<Rightarrow> Inl (rethrow ''Delete note failed'' error)),
      storage = ls,
      requests = [send ls ''DELETE'' (''/notes/'' @ i) [] None],
      href = None\<rparr>"

definition getNoteById ::
  "localStorage \<Rightarrow> string \<Rightarrow>
     thrown + (NoteData ApiResponse) AxiosResponse \<Rightarrow> (NoteData ApiResponse) call" where
  "getNoteById ls i outcome =
     \<lparr>returned = (case outcome of
                    Inr response \<Rightarrow> Inr (response_data response)
                  | Inl error \<Rightarrow> Inl (rethrow ''Get note failed'' error)),
      storage = ls,
      requests = [send ls ''GET'' (''/notes/'' @ i) [] None],
      href = None\<rparr>"

text \<open>\<open>logout\<close> removes the stored token once the request has succeeded.\<close>

definition logout ::
  "localStorage \<Rightarrow> thrown + ('a ApiResponse) AxiosResponse \<Rightarrow> ('a ApiResponse) call" where
  "logout ls outcome =
     \<lparr>returned = (case outcome of
                    Inr response \<Rightarrow> Inr (response_data response)
                  | Inl error \<Rightarrow> Inl (rethrow ''Logout failed'' error)),
      storage = (case outcome of
                   Inr response \<Rightarrow> ls(''authToken'' := None)
                 | Inl error \<Rightarrow> ls),
      requests = [send ls ''POST'' ''/auth/logout'' [] None],
      href = None\<rparr>"

definition hasLocalToken :: "localStorage \<Rightarrow> bool" where
  "hasLocalToken ls = (case ls ''authToken'' of None \<Rightarrow> False | Some t \<Rightarrow> t \<noteq> [])"

section \<open>The client components\<close>

text \<open>
  What running an event handler amounts to: the component's state once its updates are
  applied, \<open>localStorage\<close>, the requests sent, the URL assigned to
  \<open>window.location.href\<close> (if any), the router calls in order, and the error that
  escapes the handler (if any). A handler is run alone, from its first statement to its
  last, against the outcome of the one axios call it makes.
\<close>

datatype navigation = Push string | PushAfter nat string

text \<open>\<open>Push p\<close> is \<open>router.push(p)\<close>; \<open>PushAfter ms p\<close> is
  \<open>setTimeout(() => router.push(p), ms)\<close>.\<close>

fun destination :: "navigation \<Rightarrow> string" where
  "destination (Push p) = p"
| "destination (PushAfter ms p) = p"

record 's run =
  state :: 's
  run_storage :: localStorage
  run_requests :: "AxiosRequest list"
  run_href :: "string option"
  router :: "navigation list"
  rejected :: "thrown option"

text \<open>Every place the handler sends the browser to: through the router or through
  \<open>window.location.href\<close>.\<close>

definition destinations :: "'s run \<Rightarrow> string list" where
  "destinations r =
     map destination (router r) @ (case run_href r of None \<Rightarrow> [] | Some p \<Rightarrow> [p])"

subsection \<open>The dashboard client (src/unnamed/part\_000)\<close>

text \<open>The component's state. The list \<open>notes\<close> is written \<open>notes'\<close>, since \<open>notes\<close> is a
  keyword of the prover.\<close>

record DashboardState =
  notes' :: "Note list"
  isDialogOpen :: bool
  newNoteTitle :: string
  newNoteContent :: string
  isLoading :: bool
  isCreating :: bool
  error :: "string option"

definition initial_DashboardState :: DashboardState where
  "initial_DashboardState =
     \<lparr>notes' = [], isDialogOpen = False, newNoteTitle = [], newNoteContent = [],
      isLoading = True, isCreating = False, error = None\<rparr>"

text \<open>
  The \<open>catch\<close> block of \<open>fetchNotes\<close>, \<open>handleCreateNote\<close> and \<open>handleDeleteNote\<close>,
  which differ in the fallback message only. It acts on axios errors and ignores every
  other error: on status 401 it calls \<open>router.push("/signin")\<close> and returns, otherwise
  it sets the error message from \<open>error.response?.data.message\<close> or the fallback.
\<close>

definition catch_block ::
  "string \<Rightarrow> thrown \<Rightarrow> DashboardState \<Rightarrow> DashboardState \<times> navigation list \<times> thrown option" where
  "catch_block fallback err st =
     (if isAxiosError err then
        (case err of
           AxiosError response \<Rightarrow>
             if (case response of None \<Rightarrow> False | Some r \<Rightarrow> error_status r = 401)
             then (st, [Push ''/signin''], None)
             else
               (case response_data_message_strict response of
                  Inl e \<Rightarrow> (st, [], Some (JsError e))
                | Inr m \<Rightarrow> (st\<lparr>error := Some (or_else m fallback)\<rparr>, [], None))
         | _ \<Rightarrow> (st, [], None))
      else (st, [], None))"

definition fetchNotes ::
  "DashboardState \<Rightarrow> localStorage \<Rightarrow> thrown + (NotesData ApiResponse) AxiosResponse \<Rightarrow>
     DashboardState run" where
  "fetchNotes st ls outcome =
     (let c = getNotes ls 1 10 None outcome;
          (st', nav, rej) =
            (case returned c of
               Inr response \<Rightarrow>
                 (case data response of
                    Some d \<Rightarrow> if success response then (st\<lparr>notes' := notes_of d\<rparr>, [], None)
                              else (st, [], None)
                  | None \<Rightarrow> (st, [], None))
             | Inl err \<Rightarrow> catch_block ''Failed to load notes'' err st)
      in \<lparr>state = st'\<lparr>isLoading := False\<rparr>, run_storage = storage c,
          run_requests = requests c, run_href = href c, router = nav, rejected = rej\<rparr>)"

definition handleCreateNote ::
  "DashboardState \<Rightarrow> localStorage \<Rightarrow> thrown + (NoteData ApiResponse) AxiosResponse \<Rightarrow>
     DashboardState run" where
  "handleCreateNote st ls outcome =
     (if trim (newNoteTitle st) = [] then
        \<lparr>state = st, run_storage = ls, run_requests = [], run_href = None,
         router = [], rejected = None\<rparr>
      else
        (let st1 = st\<lparr>isCreating := True\<rparr>;
             c = createNote ls
                   \<lparr>create_title = newNoteTitle st, create_content = newNoteContent st\<rparr> outcome;
             (st2, nav, rej) =
               (case returned c of
                  Inr response \<Rightarrow>
                    (case data response of
                       Some d \<Rightarrow>
                         if success response then
                           (st1\<lparr>notes' := note_of d # notes' st1, newNoteTitle := [],
                                newNoteContent := [], isDialogOpen := False\<rparr>, [], None)
                         else (st1, [], None)
                     | None \<Rightarrow> (st1, [], None))
                | Inl err \<Rightarrow> catch_block ''Failed to create note'' err st1)
         in \<lparr>state = st2\<lparr>isCreating := False\<rparr>, run_storage = storage c,
             run_requests = requests c, run_href = href c, router = nav, rejected = rej\<rparr>))"

definition handleDeleteNote ::
  "DashboardState \<Rightarrow> localStorage \<Rightarrow> string \<Rightarrow> thrown + ('a ApiResponse) AxiosResponse \<Rightarrow>
     DashboardState run" where
  "handleDeleteNote st ls i outcome =
     (let c = deleteNote ls i outcome;
          (st', nav, rej) =
            (case returned c of
               Inr response \<Rightarrow>
                 (st\<lparr>notes' := filter (\<lambda>note. note_id note \<noteq> i) (notes' st)\<rparr>, [], None)
             | Inl err \<Rightarrow> catch_block ''Failed to delete note'' err st)
      in \<lparr>state = st', run_storage = storage c, run_requests = requests c,
          run_href = href c, router = nav, rejected = rej\<rparr>)"

definition handleLogout ::
  "DashboardState \<Rightarrow> localStorage \<Rightarrow> thrown + ('a ApiResponse) AxiosResponse \<Rightarrow>
     DashboardState run" where
  "handleLogout st ls outcome =
     (let c = logout ls outcome
      in \<lparr>state = st, run_storage = storage c, run_requests = requests c,
          run_href = href c, router = [Push ''/signin''], rejected = None\<rparr>)"

subsection \<open>The sign-in and sign-up forms\<close>

record FormState =
  form_isLoading :: bool
  form_error :: "string option"
  otpSent :: bool

record SignInValues =
  email :: string
  otp :: "string option"

text \<open>
  The \<open>catch\<close> block of the three \<open>onSubmit\<close> functions: an axios error sets the error
  message, any other error is ignored.
\<close>

definition form_catch :: "thrown \<Rightarrow> FormState \<Rightarrow> FormState \<times> thrown option" where
  "form_catch err st =
     (if isAxiosError err then
        (case err of
           AxiosError response \<Rightarrow>
             (case response_data_message_strict response of
                Inl e \<Rightarrow> (st, Some (JsError e))
              | Inr m \<Rightarrow>
                  (st\<lparr>form_error := Some (or_else m ''Authentication failed. Please try again.'')\<rparr>,
                   None))
         | _ \<Rightarrow> (st, None))
      else (st, None))"

text \<open>
  \<open>onSubmit\<close> of the sign-in client (src/app/signin/signin-client.tsx). Of the two
  outcomes given, the one of the call that is made is used.
\<close>

definition SignInClient_onSubmit ::
  "FormState \<Rightarrow> SignInValues \<Rightarrow> localStorage \<Rightarrow>
     thrown + ('a ApiResponse) AxiosResponse \<Rightarrow> thrown + ('b ApiResponse) AxiosResponse \<Rightarrow>
     FormState run" where
  "SignInClient_onSubmit st values ls login_outcome verify_outcome =
     (let st0 = st\<lparr>form_isLoading := True, form_error := None\<rparr> in
      if \<not> otpSent st then
        (let c = login ls \<lparr>login_email = email values\<rparr> login_outcome;
             (st1, rej) =
               (case returned c of
                  Inr response \<Rightarrow>
                    if success response then (st0\<lparr>otpSent := True, form_error := None\<rparr>, None)
                    else (st0, None)
                | Inl err \<Rightarrow> form_catch err st0)
         in \<lparr>state = st1\<lparr>form_isLoading := False\<rparr>, run_storage = storage c,
             run_requests = requests c, run_href = href c, router = [], rejected = rej\<rparr>)
      else
        (let c = verifyOTP ls
                   \<lparr>verify_email = email values, verify_otp = or_else (otp values) []\<rparr>
                   verify_outcome;
             (st1, nav, rej) =
               (case returned c of
                  Inr response \<Rightarrow>
                    if success response then (st0, [PushAfter 100 ''/dashboard''], None)
                    else (st0, [], None)
                | Inl err \<Rightarrow> (fst (form_catch err st0), [], snd (form_catch err st0)))
         in \<lparr>state = st1\<lparr>form_isLoading := False\<rparr>, run_storage = storage c,
             run_requests = requests c, run_href = href c, router = nav, rejected = rej\<rparr>))"

text \<open>
  \<open>onSubmit\<close> of the other sign-in component (src/unnamed/part\_001), which calls
  \<open>router.push\<close> at once.
\<close>

definition SignInPage_onSubmit ::
  "FormState \<Rightarrow> SignInValues \<Rightarrow> localStorage \<Rightarrow>
     thrown + ('a ApiResponse) AxiosResponse \<Rightarrow> thrown + ('b ApiResponse) AxiosResponse \<Rightarrow>
     FormState run" where
  "SignInPage_onSubmit st values ls login_outcome verify_outcome =
     (let st0 = st\<lparr>form_isLoading := True, form_error := None\<rparr> in
      if \<not> otpSent st then
        (let c = login ls \<lparr>login_email = email values\<rparr> login_outcome;
             (st1, rej) =
               (case returned c of
                  Inr response \<Rightarrow>
                    if success response then (st0\<lparr>otpSent := True, form_error := None\<rparr>, None)
                    else (st0, None)
                | Inl err \<Rightarrow> form_catch err st0)
         in \<lparr>state = st1\<lparr>form_isLoading := False\<rparr>, run_storage = storage c,
             run_requests = requests c, run_href = href c, router = [], rejected = rej\<rparr>)
      else
        (let c = verifyOTP ls
                   \<lparr>verify_email = email values, verify_otp = or_else (otp values) []\<rparr>
                   verify_outcome;
             (st1, nav, rej) =
               (case returned c of
                  Inr response \<Rightarrow>
                    if success response then (st0, [Push ''/dashboard''], None)
                    else (st0, [], None)
                | Inl err \<Rightarrow> (fst (form_catch err st0), [], snd (form_catch err st0)))
         in \<lparr>state = st1\<lparr>form_isLoading := False\<rparr>, run_storage = storage c,
             run_requests = requests c, run_href = href c, router = nav, rejected = rej\<rparr>))"

text \<open>
  \<open>onSubmit\<close> of the sign-up client (src/unnamed/part\_003). The form's values have the
  shape of \<open>SignupData\<close> with the optional \<open>otp\<close>, and are passed to \<open>signup\<close> whole.
\<close>

definition SignUpClient_onSubmit ::
  "FormState \<Rightarrow> SignupData \<Rightarrow> localStorage \<Rightarrow>
     thrown + ('a ApiResponse) AxiosResponse \<Rightarrow> thrown + ('b ApiResponse) AxiosResponse \<Rightarrow>
     FormState run" where
  "SignUpClient_onSubmit st values ls signup_outcome verify_outcome =
     (let st0 = st\<lparr>form_isLoading := True, form_error := None\<rparr> in
      if \<not> otpSent st then
        (let c = signup ls values signup_outcome;
             (st1, rej) =
               (case returned c of
                  Inr response \<Rightarrow>
                    if success response then (st0\<lparr>otpSent := True, form_error := None\<rparr>, None)
                    else (st0, None)
                | Inl err \<Rightarrow> form_catch err st0)
         in \<lparr>state = st1\<lparr>form_isLoading := False\<rparr>, run_storage = storage c,
             run_requests = requests c, run_href = href c, router = [], rejected = rej\<rparr>)
      else
        (let c = verifyOTP ls
                   \<lparr>verify_email = signup_email values,
                    verify_otp = or_else (signup_otp values) []\<rparr>
                   verify_outcome;
             (st1, nav, rej) =
               (case returned c of
                  Inr response \<Rightarrow>
                    if success response then (st0, [PushAfter 100 ''/dashboard''], None)
                    else (st0, [], None)
                | Inl err \<Rightarrow> (fst (form_catch err st0), [], snd (form_catch err st0)))
         in \<lparr>state = st1\<lparr>form_isLoading := False\<rparr>, run_storage = storage c,
             run_requests = requests c, run_href = href c, router = nav, rejected = rej\<rparr>))"

section \<open>Example inputs\<close>

text \<open>
  Two backends used to run the definitions on concrete requests: one that answers the
  profile request with 200 and a user, one that answers 401.
\<close>

definition profile_ok :: profile_endpoint where
  "profile_ok c =
     Inr \<lparr>status = 200,
          json_body = Some (JObj [(''success'', JBool True),
            (''data'', JObj [(''user'', JObj [(''id'', JStr ''u1''), (''name'', JStr ''Ada'')])])])\<rparr>"

definition profile_401 :: profile_endpoint where
  "profile_401 c =
     Inr \<lparr>status = 401, json_body = Some (JObj [(''success'', JBool False)])\<rparr>"

text \<open>Two notes, and a dashboard that shows them with the dialog open.\<close>

definition note_a :: Note where
  "note_a = \<lparr>note_id = ''n1'', title = ''Groceries'', content = ''milk'',
             note_createdAt = ''2025-01-01'', updatedAt = ''2025-01-01''\<rparr>"

definition note_b :: Note where
  "note_b = \<lparr>note_id = ''n2'', title = ''Ideas'', content = [],
             note_createdAt = ''2025-01-02'', updatedAt = ''2025-01-03''\<rparr>"

definition dashboard_open :: DashboardState where
  "dashboard_open =
     \<lparr>notes' = [note_a, note_b], isDialogOpen = True, newNoteTitle = ''Ideas'',
      newNoteContent = ''more'', isLoading = False, isCreating = False, error = None\<rparr>"

text \<open>A response of the backend with the given body and no headers of interest.\<close>

definition answered :: "'a \<Rightarrow> thrown + 'a AxiosResponse" where
  "answered body = Inr \<lparr>response_headers = Map.empty, response_data = body\<rparr>"

text \<open>A request that the backend refuses with the given status and message.\<close>

definition refused :: "nat \<Rightarrow> string \<Rightarrow> thrown + 'a" where
  "refused code msg =
     Inl (AxiosError (Some \<lparr>error_status = code,
                             error_data = Some \<lparr>error_message = Some msg\<rparr>\<rparr>))"

text \<open>A form before its first submission, and what a user typed into it.\<close>

definition form_start :: FormState where
  "form_start = \<lparr>form_isLoading = False, form_error = None, otpSent = False\<rparr>"

definition signin_values :: SignInValues where
  "signin_values = \<lparr>email = ''ada@example.org'', otp = Some ''123456''\<rparr>"

definition signup_values :: SignupData where
  "signup_values =
     \<lparr>signup_name = ''Ada'', signup_email = ''ada@example.org'', signup_dob = ''1990-01-01'',
      signup_otp = Some ''123456''\<rparr>"

text \<open>The response to a verified OTP that carries the token \<open>abc123\<close>.\<close>

definition verified :: "thrown + (unit ApiResponse) AxiosResponse" where
  "verified =
     Inr \<lparr>response_headers = [''authorization'' \<mapsto> ''Bearer abc123''],
          response_data = \<lparr>success = True, message = None, data = None\<rparr>\<rparr>"

section \<open>Properties of the server auth helper\<close>

lemma getServerAuth_returns: "\<exists>r. fst (getServerAuth cookies fetch_profile) = Inr r"
  by (simp add: getServerAuth_def split: prod.splits sum.splits)

lemma getServerAuth_try_authenticated:
  "getServerAuth_try cookies fetch_profile = (Inr r, sent) \<Longrightarrow> isAuthenticated r \<Longrightarrow>
     \<exists>cookieStore response data d.
        cookies = Inr cookieStore \<and>
        map_of cookieStore ''authToken'' \<noteq> None \<and>
        sent = [cookie_toString cookieStore] \<and>
        fetch_profile (cookie_toString cookieStore) = Inr response \<and> ok response \<and>
        json_body response = Some data \<and>
        js_get data ''data'' = Inr d \<and> js_get d ''user'' = Inr (user r)"
  by (auto simp: getServerAuth_try_def unauthenticated_def Let_def
      split: sum.splits option.splits if_splits)

lemma getServerAuth_authenticated:
  assumes "fst (getServerAuth cookies fetch_profile) = Inr r" and "isAuthenticated r"
  shows "\<exists>cookieStore response data d.
         cookies = Inr cookieStore \<and>
         fetch_profile (cookie_toString cookieStore) = Inr response \<and> ok response \<and>
         json_body response = Some data \<and>
         js_get data ''data'' = Inr d \<and> js_get d ''user'' = Inr (user r)"
proof -
  from assms obtain sent where "getServerAuth_try cookies fetch_profile = (Inr r, sent)"
    by (auto simp: getServerAuth_def unauthenticated_def split: prod.splits sum.splits)
  with assms(2) show ?thesis
    using getServerAuth_try_authenticated by blast
qed

text \<open>
  Claim C9. \<open>getServerAuth\<close> is total and fails closed. For every outcome of
  \<open>cookies()\<close> and every behaviour of the profile endpoint it returns a result and
  throws nothing. When the \<open>authToken\<close> cookie is absent the result is
  \<open>{user: null, isAuthenticated: false}\<close> and no request was sent. When the profile
  request throws or its response is not OK the result is the same. And
  \<open>isAuthenticated\<close> is true only when the response was OK, its body was JSON and
  \<open>user\<close> is the value read from it as \<open>data.data.user\<close>.
\<close>

theorem getServerAuth_total_fails_closed:
  "(\<exists>r. fst (getServerAuth cookies fetch_profile) = Inr r) \<and>
   (\<forall>cookieStore. cookies = Inr cookieStore \<and> map_of cookieStore ''authToken'' = None \<longrightarrow>
      getServerAuth cookies fetch_profile = (Inr unauthenticated, [])) \<and>
   (\<forall>cookieStore. cookies = Inr cookieStore \<and>
      ((\<exists>e. fetch_profile (cookie_toString cookieStore) = Inl e) \<or>
       (\<exists>response. fetch_profile (cookie_toString cookieStore) = Inr response \<and> \<not> ok response)) \<longrightarrow>
      fst (getServerAuth cookies fetch_profile) = Inr unauthenticated) \<and>
   (\<forall>r. fst (getServerAuth cookies fetch_profile) = Inr r \<and> isAuthenticated r \<longrightarrow>
      (\<exists>cookieStore response data d.
         cookies = Inr cookieStore \<and>
         fetch_profile (cookie_toString cookieStore) = Inr response \<and> ok response \<and>
         json_body response = Some data \<and>
         js_get data ''data'' = Inr d \<and> js_get d ''user'' = Inr (user r)))"
proof (intro conjI allI impI)
  show "\<exists>r. fst (getServerAuth cookies fetch_profile) = Inr r"
    by (rule getServerAuth_returns)
next
  fix cookieStore
  assume "cookies = Inr cookieStore \<and> map_of cookieStore ''authToken'' = None"
  then show "getServerAuth cookies fetch_profile = (Inr unauthenticated, [])"
    by (simp add: getServerAuth_def getServerAuth_try_def)
next
  fix cookieStore
  assume "cookies = Inr cookieStore \<and>
      ((\<exists>e. fetch_profile (cookie_toString cookieStore) = Inl e) \<or>
       (\<exists>response. fetch_profile (cookie_toString cookieStore) = Inr response \<and> \<not> ok response))"
  then show "fst (getServerAuth cookies fetch_profile) = Inr unauthenticated"
    by (auto simp: getServerAuth_def getServerAuth_try_def Let_def split: option.splits)
next
  fix r
  assume "fst (getServerAuth cookies fetch_profile) = Inr r \<and> isAuthenticated r"
  then show "\<exists>cookieStore response data d.
         cookies = Inr cookieStore \<and>
         fetch_profile (cookie_toString cookieStore) = Inr response \<and> ok response \<and>
         json_body response = Some data \<and>
         js_get data ''data'' = Inr d \<and> js_get d ''user'' = Inr (user r)"
    using getServerAuth_authenticated by blast
qed

text \<open>
  The theorem at three requests: one with no \<open>authToken\<close> cookie, one whose profile
  request is answered 401, and one that the backend accepts, where the user returned is
  the one of the response body.
\<close>

theorem getServerAuth_total_fails_closed_witness:
  "getServerAuth (Inr [(''theme'', ''dark'')]) profile_ok = (Inr unauthenticated, []) \<and>
   fst (getServerAuth (Inr [(''authToken'', ''t'')]) profile_401) = Inr unauthenticated \<and>
   (\<exists>r. fst (getServerAuth (Inr [(''authToken'', ''t'')]) profile_ok) = Inr r \<and>
        isAuthenticated r \<and>
        user r = JObj [(''id'', JStr ''u1''), (''name'', JStr ''Ada'')])"
proof (intro conjI)
  have "map_of [(''theme'', ''dark'')] ''authToken'' = None"
    by simp
  then show "getServerAuth (Inr [(''theme'', ''dark'')]) profile_ok = (Inr unauthenticated, [])"
    using getServerAuth_total_fails_closed [of "Inr [(''theme'', ''dark'')]" profile_ok]
    by blast
next
  have "profile_401 (cookie_toString [(''authToken'', ''t'')])
          = Inr \<lparr>status = 401, json_body = Some (JObj [(''success'', JBool False)])\<rparr>"
    and "\<not> ok \<lparr>status = 401, json_body = Some (JObj [(''success'', JBool False)])\<rparr>"
    by (simp_all add: profile_401_def ok_def)
  then show "fst (getServerAuth (Inr [(''authToken'', ''t'')]) profile_401) = Inr unauthenticated"
    using getServerAuth_total_fails_closed [of "Inr [(''authToken'', ''t'')]" profile_401]
    by blast
next
  from getServerAuth_total_fails_closed [of "Inr [(''authToken'', ''t'')]" profile_ok]
  obtain r where r: "fst (getServerAuth (Inr [(''authToken'', ''t'')]) profile_ok) = Inr r"
    by blast
  then have "r = \<lparr>user = JObj [(''id'', JStr ''u1''), (''name'', JStr ''Ada'')],
                  isAuthenticated = True\<rparr>"
    by (simp add: getServerAuth_def getServerAuth_try_def profile_ok_def ok_def)
  with r show "\<exists>r. fst (getServerAuth (Inr [(''authToken'', ''t'')]) profile_ok) = Inr r \<and>
        isAuthenticated r \<and>
        user r = JObj [(''id'', JStr ''u1''), (''name'', JStr ''Ada'')]"
    by simp
qed

section \<open>Properties of the guarded pages\<close>

lemma getServerAuth_with_token:
  "fst (getServerAuth (Inr [(''authToken'', ''t'')]) profile_ok) =
     Inr \<lparr>user = JObj [(''id'', JStr ''u1''), (''name'', JStr ''Ada'')], isAuthenticated = True\<rparr>"
  by (simp add: getServerAuth_def getServerAuth_try_def profile_ok_def ok_def)

lemma getServerAuth_without_cookies:
  "fst (getServerAuth (Inr []) profile_ok) = Inr \<lparr>user = JNull, isAuthenticated = False\<rparr>"
  by (simp add: getServerAuth_def getServerAuth_try_def unauthenticated_def)

text \<open>
  Claim C7. The server-rendered pages are guarded. Whatever the request's cookies and
  the backend do, the server auth check returns a result \<open>r\<close>, and: the dashboard page
  renders the dashboard client, with the user of \<open>r\<close>, exactly when \<open>r\<close> is authenticated
  and carries a user, and redirects to \<open>/signin\<close> otherwise (so in particular when the
  request is unauthenticated); the sign-in and sign-up pages redirect to \<open>/dashboard\<close>
  when \<open>r\<close> is authenticated and render their forms only when it is not.
\<close>

theorem pages_guarded:
  "\<exists>r. fst (getServerAuth cookies fetch_profile) = Inr r \<and>
     DashboardPage cookies fetch_profile =
       (if isAuthenticated r \<and> truthy (user r) then Rendered (DashboardClient (user r))
        else PageRedirect ''/signin'') \<and>
     SignInPage cookies fetch_profile =
       (if isAuthenticated r then PageRedirect ''/dashboard'' else Rendered SignInClient) \<and>
     SignUpPage cookies fetch_profile =
       (if isAuthenticated r then PageRedirect ''/dashboard'' else Rendered SignUpClient)"
proof -
  obtain r where r: "fst (getServerAuth cookies fetch_profile) = Inr r"
    using getServerAuth_returns by blast
  have "DashboardPage cookies fetch_profile =
       (if isAuthenticated r \<and> truthy (user r) then Rendered (DashboardClient (user r))
        else PageRedirect ''/signin'')"
    using r by (simp add: DashboardPage_def requireAuth_def requireAuth_of_def)
  moreover have "SignInPage cookies fetch_profile =
       (if isAuthenticated r then PageRedirect ''/dashboard'' else Rendered SignInClient)"
    using r by (simp add: SignInPage_def redirectIfAuthenticated_def redirectIfAuthenticated_of_def)
  moreover have "SignUpPage cookies fetch_profile =
       (if isAuthenticated r then PageRedirect ''/dashboard'' else Rendered SignUpClient)"
    using r by (simp add: SignUpPage_def redirectIfAuthenticated_def redirectIfAuthenticated_of_def)
  ultimately show ?thesis using r by blast
qed

text \<open>The theorem at a request with a token the backend accepts, and at one with no
  cookie.\<close>

theorem pages_guarded_witness:
  "DashboardPage (Inr [(''authToken'', ''t'')]) profile_ok =
     Rendered (DashboardClient (JObj [(''id'', JStr ''u1''), (''name'', JStr ''Ada'')])) \<and>
   SignInPage (Inr [(''authToken'', ''t'')]) profile_ok = PageRedirect ''/dashboard'' \<and>
   SignUpPage (Inr [(''authToken'', ''t'')]) profile_ok = PageRedirect ''/dashboard'' \<and>
   DashboardPage (Inr []) profile_ok = PageRedirect ''/signin'' \<and>
   SignInPage (Inr []) profile_ok = Rendered SignInClient \<and>
   SignUpPage (Inr []) profile_ok = Rendered SignUpClient"
proof -
  from pages_guarded [of "Inr [(''authToken'', ''t'')]" profile_ok]
  have a: "DashboardPage (Inr [(''authToken'', ''t'')]) profile_ok =
       Rendered (DashboardClient (JObj [(''id'', JStr ''u1''), (''name'', JStr ''Ada'')])) \<and>
     SignInPage (Inr [(''authToken'', ''t'')]) profile_ok = PageRedirect ''/dashboard'' \<and>
     SignUpPage (Inr [(''authToken'', ''t'')]) profile_ok = PageRedirect ''/dashboard''"
    by (simp add: getServerAuth_with_token)
  from pages_guarded [of "Inr []" profile_ok]
  have b: "DashboardPage (Inr []) profile_ok = PageRedirect ''/signin'' \<and>
     SignInPage (Inr []) profile_ok = Rendered SignInClient \<and>
     SignUpPage (Inr []) profile_ok = Rendered SignUpClient"
    by (simp add: getServerAuth_without_cookies)
  from a b show ?thesis by simp
qed

section \<open>Properties of the middleware\<close>

lemma root_not_routes:
  "\<not> list_ex (\<lambda>route. prefix route ''/'') protectedRoutes"
  "\<not> list_ex (\<lambda>route. prefix route ''/'') authRoutes"
  by (simp_all add: protectedRoutes_def authRoutes_def)

lemma checkAuthentication_profile_ok: "checkAuthentication profile_ok request"
  by (simp add: checkAuthentication_def profile_ok_def ok_def)

lemma checkAuthentication_profile_401: "\<not> checkAuthentication profile_401 request"
  by (simp add: checkAuthentication_def profile_401_def)

text \<open>
  Claim C2, as the code has it. A request to the root path is never let through. The
  middleware of src/unnamed/part\_006 redirects it to \<open>/dashboard\<close> when its
  authentication check succeeds and to \<open>/signin\<close> when it fails; the middleware of
  src/middleware.ts redirects it to \<open>/signin\<close> whatever the authentication status.
\<close>

theorem root_redirects:
  "pathname request = ''/'' \<Longrightarrow>
     middleware_006 fetch_profile request =
       Redirect (new_URL (if checkAuthentication fetch_profile request then ''/dashboard''
                          else ''/signin'')) \<and>
     middleware request = Redirect (new_URL ''/signin'')"
  by (simp add: middleware_006_def middleware_def root_not_routes Let_def)

theorem root_redirects_witness:
  "middleware_006 profile_ok \<lparr>pathname = ''/'', cookie = Some ''authToken=t''\<rparr> =
     Redirect (new_URL ''/dashboard'') \<and>
   middleware_006 profile_401 \<lparr>pathname = ''/'', cookie = None\<rparr> =
     Redirect (new_URL ''/signin'') \<and>
   middleware \<lparr>pathname = ''/'', cookie = Some ''authToken=t''\<rparr> = Redirect (new_URL ''/signin'')"
proof -
  have p: "pathname \<lparr>pathname = ''/'', cookie = Some ''authToken=t''\<rparr> = ''/''"
    and q: "pathname \<lparr>pathname = ''/'', cookie = None\<rparr> = ''/''"
    by simp_all
  from root_redirects [OF p, of profile_ok] root_redirects [OF q, of profile_401]
  show ?thesis
    by (simp add: checkAuthentication_profile_ok checkAuthentication_profile_401)
qed

text \<open>
  Claim C2, as stated, fails on src/middleware.ts: a request to the root path that
  the backend authenticates is redirected to \<open>/signin\<close>, not to \<open>/dashboard\<close>.
\<close>

theorem root_redirect_counterexample:
  "checkAuthentication profile_ok \<lparr>pathname = ''/'', cookie = Some ''authToken=t''\<rparr> \<and>
   redirect_path (middleware \<lparr>pathname = ''/'', cookie = Some ''authToken=t''\<rparr>) = Some ''/signin'' \<and>
   redirect_path (middleware \<lparr>pathname = ''/'', cookie = Some ''authToken=t''\<rparr>) \<noteq> Some ''/dashboard''"
  by (simp add: checkAuthentication_profile_ok middleware_def new_URL_def)

lemma middleware_006_protected:
  "prefix ''/dashboard'' (pathname request) \<Longrightarrow> \<not> checkAuthentication fetch_profile request \<Longrightarrow>
   middleware_006 fetch_profile request =
     Redirect \<lparr>url_pathname = ''/signin'', searchParams = [(''redirect'', pathname request)]\<rparr>"
  by (simp add: middleware_006_def protectedRoutes_def new_URL_def Let_def)

lemma middleware_006_auth_route:
  "prefix ''/signin'' (pathname request) \<or> prefix ''/signup'' (pathname request) \<Longrightarrow>
   checkAuthentication fetch_profile request \<Longrightarrow>
   middleware_006 fetch_profile request = Redirect (new_URL ''/dashboard'')"
  by (simp add: middleware_006_def protectedRoutes_def authRoutes_def Let_def)

section \<open>Properties of the API service\<close>

lemma getNotes_401:
  "error_status resp = 401 \<Longrightarrow>
   getNotes ls page limit search (Inl (AxiosError (Some resp))) =
     \<lparr>returned = Inl (Error (or_else (response_data_message (Some resp)) ''Get notes failed'')),
      storage = ls(''authToken'' := None),
      requests = [send ls ''GET'' ''/notes''
                 ([(''page'', toString page), (''limit'', toString limit)]
                  @ (case search of
                       None \<Rightarrow> []
                     | Some s \<Rightarrow> if s \<noteq> [] then [(''search'', s)] else []))
                 None],
      href = Some ''/signin''\<rparr>"
  by (simp add: getNotes_def rethrow_def)

section \<open>Properties of the dashboard client\<close>

lemma catch_block_Error: "catch_block fallback (Error m) st = (st, [], None)"
  by (simp add: catch_block_def)

lemma fetchNotes_401:
  "error_status resp = 401 \<Longrightarrow>
   destinations (fetchNotes st ls (Inl (AxiosError (Some resp)))) = [''/signin'']"
  by (simp add: fetchNotes_def getNotes_401 catch_block_Error destinations_def del: toString.simps)

section \<open>Properties of the notes list\<close>

lemma trim_blank: "trim ''   '' = []"
  by (simp add: trim_def js_whitespace_def)

lemma trim_Ideas: "trim ''Ideas'' \<noteq> []"
  by (simp add: trim_def js_whitespace_def)

text \<open>
  Claim C8. When the title is empty after trimming, \<open>handleCreateNote\<close> returns at
  once: it sends no request (so the create-note API is not called), and the notes list,
  the dialog-open flag and the title and content inputs are as they were; indeed the
  whole state is.
\<close>

theorem blank_title_is_noop:
  "trim (newNoteTitle st) = [] \<Longrightarrow>
     run_requests (handleCreateNote st ls outcome) = [] \<and>
     notes' (state (handleCreateNote st ls outcome)) = notes' st \<and>
     isDialogOpen (state (handleCreateNote st ls outcome)) = isDialogOpen st \<and>
     newNoteTitle (state (handleCreateNote st ls outcome)) = newNoteTitle st \<and>
     newNoteContent (state (handleCreateNote st ls outcome)) = newNoteContent st \<and>
     state (handleCreateNote st ls outcome) = st"
  by (simp add: handleCreateNote_def)

text \<open>The theorem on the open dashboard with a title of three spaces, whatever the
  backend would have answered.\<close>

theorem blank_title_is_noop_witness:
  "trim (newNoteTitle (dashboard_open\<lparr>newNoteTitle := ''   ''\<rparr>)) = [] \<and>
   run_requests (handleCreateNote (dashboard_open\<lparr>newNoteTitle := ''   ''\<rparr>) Map.empty
      (answered \<lparr>success = True, message = None, data = Some \<lparr>note_of = note_a\<rparr>\<rparr>)) = [] \<and>
   state (handleCreateNote (dashboard_open\<lparr>newNoteTitle := ''   ''\<rparr>) Map.empty
      (answered \<lparr>success = True, message = None, data = Some \<lparr>note_of = note_a\<rparr>\<rparr>))
     = dashboard_open\<lparr>newNoteTitle := ''   ''\<rparr>"
proof -
  have t: "trim (newNoteTitle (dashboard_open\<lparr>newNoteTitle := ''   ''\<rparr>)) = []"
    by (simp add: trim_blank)
  from blank_title_is_noop [OF t] t show ?thesis
    by blast
qed

lemma createNote_answered:
  "createNote ls noteData (Inr response) =
     \<lparr>returned = Inr (response_data response), storage = ls,
      requests = [send ls ''POST'' ''/notes'' [] (Some (json_of_CreateNoteData noteData))],
      href = None\<rparr>"
  by (simp add: createNote_def)

lemma handleCreateNote_success:
  assumes "trim (newNoteTitle st) \<noteq> []"
    and "success (response_data response)" and "data (response_data response) = Some d"
  shows "state (handleCreateNote st ls (Inr response)) =
     st\<lparr>notes' := note_of d # notes' st, newNoteTitle := [], newNoteContent := [],
        isDialogOpen := False, isCreating := False\<rparr>"
  using assms by (simp add: handleCreateNote_def createNote_answered Let_def)

lemma handleDeleteNote_success:
  "state (handleDeleteNote st ls i (Inr response)) =
     st\<lparr>notes' := filter (\<lambda>note. note_id note \<noteq> i) (notes' st)\<rparr>"
  by (simp add: handleDeleteNote_def deleteNote_def Let_def)

text \<open>
  Claim C10. The notes list follows each successful mutation exactly. After a
  \<open>createNote\<close> call that succeeds (the handler made the call, and the response has
  \<open>success\<close> and \<open>data\<close>), the list is the returned note in front of the previous list.
  After a \<open>deleteNote(id)\<close> call that resolves, the list is the previous list without the
  notes whose id is the argument: the notes kept are exactly the others, unchanged and
  in their order.
\<close>

theorem notes_list_follows_mutations:
  "(trim (newNoteTitle st) \<noteq> [] \<and> success (response_data created) \<and>
      data (response_data created) = Some d \<longrightarrow>
      notes' (state (handleCreateNote st ls (Inr created))) = note_of d # notes' st) \<and>
   notes' (state (handleDeleteNote st ls i (Inr deleted))) =
      filter (\<lambda>note. note_id note \<noteq> i) (notes' st) \<and>
   set (notes' (state (handleDeleteNote st ls i (Inr deleted)))) =
      {note \<in> set (notes' st). note_id note \<noteq> i} \<and>
   subseq (notes' (state (handleDeleteNote st ls i (Inr deleted)))) (notes' st)"
  by (simp add: handleCreateNote_success handleDeleteNote_success)

text \<open>The theorem on the dashboard with two notes: a third is created, and the first
  is deleted.\<close>

theorem notes_list_follows_mutations_witness:
  "notes' (state (handleCreateNote dashboard_open Map.empty
      (Inr \<lparr>response_headers = Map.empty,
            response_data = \<lparr>success = True, message = None,
                             data = Some \<lparr>note_of = note_a\<lparr>note_id := ''n3''\<rparr>\<rparr>\<rparr>\<rparr>)))
     = [note_a\<lparr>note_id := ''n3''\<rparr>, note_a, note_b] \<and>
   notes' (state (handleDeleteNote dashboard_open Map.empty ''n1''
      (Inr \<lparr>response_headers = Map.empty,
            response_data = \<lparr>success = True, message = None, data = None :: unit option\<rparr>\<rparr>)))
     = [note_b]"
proof -
  have "trim (newNoteTitle dashboard_open) \<noteq> []"
    by (simp add: dashboard_open_def trim_Ideas)
  with notes_list_follows_mutations [of dashboard_open
      "\<lparr>response_headers = Map.empty,
        response_data = \<lparr>success = True, message = None,
                         data = Some \<lparr>note_of = note_a\<lparr>note_id := ''n3''\<rparr>\<rparr>\<rparr>\<rparr>"
      "\<lparr>note_of = note_a\<lparr>note_id := ''n3''\<rparr>\<rparr>" Map.empty "''n1''"
      "\<lparr>response_headers = Map.empty,
        response_data = \<lparr>success = True, message = None, data = None :: unit option\<rparr>\<rparr>"]
  show ?thesis
    by (simp add: dashboard_open_def note_a_def note_b_def)
qed

section \<open>Properties of the entity types\<close>

lemma bij_spec_of_User: "bij spec_of_User"
proof (rule bijI)
  show "inj spec_of_User"
    by (rule injI) (simp add: spec_of_User_def)
next
  show "surj spec_of_User"
  proof (rule surjI)
    fix t :: spec_User
    show "spec_of_User \<lparr>user_id = fst t, user_email = fst (snd t), user_name = fst (snd (snd t)),
       user_isVerified = fst (snd (snd (snd t))), user_createdAt = snd (snd (snd (snd t)))\<rparr> = t"
      by (simp add: spec_of_User_def)
  qed
qed

lemma bij_spec_of_Note: "bij spec_of_Note"
proof (rule bijI)
  show "inj spec_of_Note"
    by (rule injI) (simp add: spec_of_Note_def)
next
  show "surj spec_of_Note"
  proof (rule surjI)
    fix t :: spec_Note
    show "spec_of_Note \<lparr>note_id = fst t, title = fst (snd t), content = fst (snd (snd t)),
       note_createdAt = fst (snd (snd (snd t))), updatedAt = snd (snd (snd (snd t)))\<rparr> = t"
      by (simp add: spec_of_Note_def)
  qed
qed

lemma bij_spec_of_User_api_with_dob: "bij (\<lambda>u. (spec_of_User_api u, api_dob u))"
proof (rule bijI)
  show "inj (\<lambda>u. (spec_of_User_api u, api_dob u))"
    by (rule injI) (simp add: spec_of_User_api_def)
next
  show "surj (\<lambda>u. (spec_of_User_api u, api_dob u))"
  proof (rule surjI)
    fix p :: "spec_User \<times> string"
    show "(\<lambda>u. (spec_of_User_api u, api_dob u))
            \<lparr>api_id = fst (fst p), api_email = fst (snd (fst p)),
             api_name = fst (snd (snd (fst p))), api_dob = snd p,
             api_isVerified = fst (snd (snd (snd (fst p)))),
             api_createdAt = snd (snd (snd (snd (fst p))))\<rparr> = p"
      by (simp add: spec_of_User_api_def)
  qed
qed

text \<open>
  Claim C5, as the code has it. The \<open>User\<close> of the server auth helper and of the
  dashboard client consists of exactly the fields id, email, name, isVerified and
  createdAt, and \<open>Note\<close> of exactly id, title, content, createdAt and updatedAt: reading
  the listed fields is a bijection between the records and the tuples of field values,
  so no field is missing, none is added, and every combination of values is a record
  (no invariant). The \<open>User\<close> that the API service exports consists of the five fields
  and \<open>dob\<close>.
\<close>

theorem entity_types_shape:
  "bij spec_of_User \<and> bij spec_of_Note \<and> bij (\<lambda>u. (spec_of_User_api u, api_dob u))"
  by (simp add: bij_spec_of_User bij_spec_of_Note bij_spec_of_User_api_with_dob)

text \<open>
  Claim C5, as stated, fails on the \<open>User\<close> of the API service: two users that differ
  in \<open>dob\<close> only have the same five fields, so the five fields are not all there is.
\<close>

theorem entity_types_counterexample:
  "spec_of_User_api \<lparr>api_id = ''u1'', api_email = ''ada@example.org'', api_name = ''Ada'',
      api_dob = ''1990-01-01'', api_isVerified = True, api_createdAt = ''2025-01-01''\<rparr>
     = spec_of_User_api \<lparr>api_id = ''u1'', api_email = ''ada@example.org'', api_name = ''Ada'',
      api_dob = ''2000-12-31'', api_isVerified = True, api_createdAt = ''2025-01-01''\<rparr> \<and>
   \<lparr>api_id = ''u1'', api_email = ''ada@example.org'', api_name = ''Ada'',
      api_dob = ''1990-01-01'', api_isVerified = True, api_createdAt = ''2025-01-01''\<rparr>
     \<noteq> \<lparr>api_id = ''u1'', api_email = ''ada@example.org'', api_name = ''Ada'',
      api_dob = ''2000-12-31'', api_isVerified = True, api_createdAt = ''2025-01-01''\<rparr>"
  by (simp add: spec_of_User_api_def)

section \<open>Properties of the sign-in and sign-up forms\<close>

lemma send_fields [simp]:
  "method' (send ls m u ps body) = m"
  "url (send ls m u ps body) = u"
  "params (send ls m u ps body) = ps"
  "payload (send ls m u ps body) = body"
  by (simp_all add: send_def setupRequestInterceptor_def axios_request_def split: option.splits)

lemma form_first_phase:
  "\<not> otpSent st \<Longrightarrow>
   map url (run_requests (SignInClient_onSubmit st values ls first second)) = [''/auth/login''] \<and>
   map payload (run_requests (SignInClient_onSubmit st values ls first second)) =
     [Some (JObj [(''email'', JStr (email values))])] \<and>
   map url (run_requests (SignInPage_onSubmit st values ls first second)) = [''/auth/login''] \<and>
   map payload (run_requests (SignInPage_onSubmit st values ls first second)) =
     [Some (JObj [(''email'', JStr (email values))])] \<and>
   map url (run_requests (SignUpClient_onSubmit st up ls first second)) = [''/auth/signup''] \<and>
   map payload (run_requests (SignUpClient_onSubmit st up ls first second)) =
     [Some (json_of_SignupData up)]"
  by (simp add: SignInClient_onSubmit_def SignInPage_onSubmit_def SignUpClient_onSubmit_def
      login_def signup_def Let_def json_of_LoginData_def split_beta)

lemma form_first_phase_success:
  "\<not> otpSent st \<Longrightarrow> success (response_data response) \<Longrightarrow>
   otpSent (state (SignInClient_onSubmit st values ls (Inr response) second)) \<and>
   destinations (SignInClient_onSubmit st values ls (Inr response) second) = [] \<and>
   otpSent (state (SignInPage_onSubmit st values ls (Inr response) second)) \<and>
   destinations (SignInPage_onSubmit st values ls (Inr response) second) = [] \<and>
   otpSent (state (SignUpClient_onSubmit st up ls (Inr response) second)) \<and>
   destinations (SignUpClient_onSubmit st up ls (Inr response) second) = []"
  by (simp add: SignInClient_onSubmit_def SignInPage_onSubmit_def SignUpClient_onSubmit_def
      login_def signup_def Let_def destinations_def split_beta)

lemma form_second_phase:
  "otpSent st \<Longrightarrow>
   map url (run_requests (SignInClient_onSubmit st values ls first second)) = [''/auth/verify-otp''] \<and>
   map payload (run_requests (SignInClient_onSubmit st values ls first second)) =
     [Some (JObj [(''email'', JStr (email values)), (''otp'', JStr (or_else (otp values) []))])] \<and>
   map url (run_requests (SignInPage_onSubmit st values ls first second)) = [''/auth/verify-otp''] \<and>
   map payload (run_requests (SignInPage_onSubmit st values ls first second)) =
     [Some (JObj [(''email'', JStr (email values)), (''otp'', JStr (or_else (otp values) []))])] \<and>
   map url (run_requests (SignUpClient_onSubmit st up ls first second)) = [''/auth/verify-otp''] \<and>
   map payload (run_requests (SignUpClient_onSubmit st up ls first second)) =
     [Some (JObj [(''email'', JStr (signup_email up)),
                  (''otp'', JStr (or_else (signup_otp up) []))])]"
  by (simp add: SignInClient_onSubmit_def SignInPage_onSubmit_def SignUpClient_onSubmit_def
      verifyOTP_def Let_def json_of_VerifyOTPData_def split_beta)

lemma form_second_phase_success:
  "otpSent st \<Longrightarrow> success (response_data response) \<Longrightarrow>
   destinations (SignInClient_onSubmit st values ls first (Inr response)) = [''/dashboard''] \<and>
   destinations (SignInPage_onSubmit st values ls first (Inr response)) = [''/dashboard''] \<and>
   destinations (SignUpClient_onSubmit st up ls first (Inr response)) = [''/dashboard'']"
  by (simp add: SignInClient_onSubmit_def SignInPage_onSubmit_def SignUpClient_onSubmit_def
      verifyOTP_def Let_def destinations_def split_beta)

lemma signup_payload_fields:
  "js_get (json_of_SignupData up) ''email'' = Inr (JStr (signup_email up)) \<and>
   js_get (json_of_SignupData up) ''name'' = Inr (JStr (signup_name up)) \<and>
   js_get (json_of_SignupData up) ''dob'' = Inr (JStr (signup_dob up))"
  by (simp add: json_of_SignupData_def split: option.splits)

text \<open>
  Claim C3. Sign-in and sign-up are two-phase, for the sign-in client, the other
  sign-in component and the sign-up client alike. A submission made before the OTP was
  sent makes exactly one request, to the login endpoint with the entered email or to
  the signup endpoint with the form's values (among them the entered email, name and
  dob); when the response is successful the form is in the OTP-sent state and the
  browser is sent nowhere. A submission made after the OTP was sent makes exactly one
  request, to the verify-OTP endpoint with the email and the entered OTP (the empty
  string when none was entered); when the response is successful the browser is sent to
  \<open>/dashboard\<close> and nowhere else.
\<close>

theorem two_phase_otp_flow:
  "(\<not> otpSent st \<longrightarrow>
      map url (run_requests (SignInClient_onSubmit st values ls first second)) = [''/auth/login''] \<and>
      map payload (run_requests (SignInClient_onSubmit st values ls first second)) =
        [Some (JObj [(''email'', JStr (email values))])] \<and>
      map url (run_requests (SignInPage_onSubmit st values ls first second)) = [''/auth/login''] \<and>
      map payload (run_requests (SignInPage_onSubmit st values ls first second)) =
        [Some (JObj [(''email'', JStr (email values))])] \<and>
      map url (run_requests (SignUpClient_onSubmit st up ls first second)) = [''/auth/signup''] \<and>
      map payload (run_requests (SignUpClient_onSubmit st up ls first second)) =
        [Some (json_of_SignupData up)] \<and>
      js_get (json_of_SignupData up) ''email'' = Inr (JStr (signup_email up)) \<and>
      js_get (json_of_SignupData up) ''name'' = Inr (JStr (signup_name up)) \<and>
      js_get (json_of_SignupData up) ''dob'' = Inr (JStr (signup_dob up)) \<and>
      (\<forall>response. first = Inr response \<and> success (response_data response) \<longrightarrow>
         otpSent (state (SignInClient_onSubmit st values ls first second)) \<and>
         destinations (SignInClient_onSubmit st values ls first second) = [] \<and>
         otpSent (state (SignInPage_onSubmit st values ls first second)) \<and>
         destinations (SignInPage_onSubmit st values ls first second) = [] \<and>
         otpSent (state (SignUpClient_onSubmit st up ls first second)) \<and>
         destinations (SignUpClient_onSubmit st up ls first second) = [])) \<and>
   (otpSent st \<longrightarrow>
      map url (run_requests (SignInClient_onSubmit st values ls first second)) = [''/auth/verify-otp''] \<and>
      map payload (run_requests (SignInClient_onSubmit st values ls first second)) =
        [Some (JObj [(''email'', JStr (email values)), (''otp'', JStr (or_else (otp values) []))])] \<and>
      map url (run_requests (SignInPage_onSubmit st values ls first second)) = [''/auth/verify-otp''] \<and>
      map payload (run_requests (SignInPage_onSubmit st values ls first second)) =
        [Some (JObj [(''email'', JStr (email values)), (''otp'', JStr (or_else (otp values) []))])] \<and>
      map url (run_requests (SignUpClient_onSubmit st up ls first second)) = [''/auth/verify-otp''] \<and>
      map payload (run_requests (SignUpClient_onSubmit st up ls first second)) =
        [Some (JObj [(''email'', JStr (signup_email up)),
                     (''otp'', JStr (or_else (signup_otp up) []))])] \<and>
      (\<forall>response. second = Inr response \<and> success (response_data response) \<longrightarrow>
         destinations (SignInClient_onSubmit st values ls first second) = [''/dashboard''] \<and>
         destinations (SignInPage_onSubmit st values ls first second) = [''/dashboard''] \<and>
         destinations (SignUpClient_onSubmit st up ls first second) = [''/dashboard'']))"
proof (intro conjI impI)
  assume a: "\<not> otpSent st"
  show "map url (run_requests (SignInClient_onSubmit st values ls first second)) = [''/auth/login'']"
    and "map payload (run_requests (SignInClient_onSubmit st values ls first second)) =
        [Some (JObj [(''email'', JStr (email values))])]"
    and "map url (run_requests (SignInPage_onSubmit st values ls first second)) = [''/auth/login'']"
    and "map payload (run_requests (SignInPage_onSubmit st values ls first second)) =
        [Some (JObj [(''email'', JStr (email values))])]"
    and "map url (run_requests (SignUpClient_onSubmit st up ls first second)) = [''/auth/signup'']"
    and "map payload (run_requests (SignUpClient_onSubmit st up ls first second)) =
        [Some (json_of_SignupData up)]"
    using form_first_phase [OF a] by blast+
  show "js_get (json_of_SignupData up) ''email'' = Inr (JStr (signup_email up))"
    and "js_get (json_of_SignupData up) ''name'' = Inr (JStr (signup_name up))"
    and "js_get (json_of_SignupData up) ''dob'' = Inr (JStr (signup_dob up))"
    using signup_payload_fields by blast+
  show "\<forall>response. first = Inr response \<and> success (response_data response) \<longrightarrow>
         otpSent (state (SignInClient_onSubmit st values ls first second)) \<and>
         destinations (SignInClient_onSubmit st values ls first second) = [] \<and>
         otpSent (state (SignInPage_onSubmit st values ls first second)) \<and>
         destinations (SignInPage_onSubmit st values ls first second) = [] \<and>
         otpSent (state (SignUpClient_onSubmit st up ls first second)) \<and>
         destinations (SignUpClient_onSubmit st up ls first second) = []"
    using form_first_phase_success [OF a] by blast
next
  assume a: "otpSent st"
  show "map url (run_requests (SignInClient_onSubmit st values ls first second)) = [''/auth/verify-otp'']"
    and "map payload (run_requests (SignInClient_onSubmit st values ls first second)) =
        [Some (JObj [(''email'', JStr (email values)), (''otp'', JStr (or_else (otp values) []))])]"
    and "map url (run_requests (SignInPage_onSubmit st values ls first second)) = [''/auth/verify-otp'']"
    and "map payload (run_requests (SignInPage_onSubmit st values ls first second)) =
        [Some (JObj [(''email'', JStr (email values)), (''otp'', JStr (or_else (otp values) []))])]"
    and "map url (run_requests (SignUpClient_onSubmit st up ls first second)) = [''/auth/verify-otp'']"
    and "map payload (run_requests (SignUpClient_onSubmit st up ls first second)) =
        [Some (JObj [(''email'', JStr (signup_email up)),
                     (''otp'', JStr (or_else (signup_otp up) []))])]"
    using form_second_phase [OF a] by blast+
  show "\<forall>response. second = Inr response \<and> success (response_data response) \<longrightarrow>
         destinations (SignInClient_onSubmit st values ls first second) = [''/dashboard''] \<and>
         destinations (SignInPage_onSubmit st values ls first second) = [''/dashboard''] \<and>
         destinations (SignUpClient_onSubmit st up ls first second) = [''/dashboard'']"
    using form_second_phase_success [OF a] by blast
qed

text \<open>
  The theorem on a sign-in: the first submission asks for the OTP and leaves the form
  in the OTP-sent state, the second verifies it and leads to \<open>/dashboard\<close>.
\<close>

theorem two_phase_otp_flow_witness:
  "map url (run_requests (SignInClient_onSubmit form_start signin_values Map.empty
      (answered \<lparr>success = True, message = None, data = None :: unit option\<rparr>) verified))
     = [''/auth/login''] \<and>
   otpSent (state (SignInClient_onSubmit form_start signin_values Map.empty
      (answered \<lparr>success = True, message = None, data = None :: unit option\<rparr>) verified)) \<and>
   destinations (SignInClient_onSubmit form_start signin_values Map.empty
      (answered \<lparr>success = True, message = None, data = None :: unit option\<rparr>) verified) = [] \<and>
   map payload (run_requests (SignInClient_onSubmit (form_start\<lparr>otpSent := True\<rparr>) signin_values
      Map.empty (answered \<lparr>success = True, message = None, data = None :: unit option\<rparr>) verified))
     = [Some (JObj [(''email'', JStr ''ada@example.org''), (''otp'', JStr ''123456'')])] \<and>
   destinations (SignInClient_onSubmit (form_start\<lparr>otpSent := True\<rparr>) signin_values
      Map.empty (answered \<lparr>success = True, message = None, data = None :: unit option\<rparr>) verified)
     = [''/dashboard''] \<and>
   destinations (SignUpClient_onSubmit (form_start\<lparr>otpSent := True\<rparr>) signup_values
      Map.empty (answered \<lparr>success = True, message = None, data = None :: unit option\<rparr>) verified)
     = [''/dashboard'']"
proof -
  have s: "\<not> otpSent form_start" "otpSent (form_start\<lparr>otpSent := True\<rparr>)"
    by (simp_all add: form_start_def)
  have f: "answered \<lparr>success = True, message = None, data = None :: unit option\<rparr>
             = Inr \<lparr>response_headers = Map.empty,
                    response_data = \<lparr>success = True, message = None, data = None\<rparr>\<rparr>"
    "success (response_data \<lparr>response_headers = Map.empty,
                    response_data = \<lparr>success = True, message = None, data = None :: unit option\<rparr>\<rparr>)"
    by (simp_all add: answered_def)
  have v: "verified = Inr \<lparr>response_headers = [''authorization'' \<mapsto> ''Bearer abc123''],
          response_data = \<lparr>success = True, message = None, data = None\<rparr>\<rparr>"
    "success (response_data \<lparr>response_headers = [''authorization'' \<mapsto> ''Bearer abc123''],
          response_data = \<lparr>success = True, message = None, data = None :: unit option\<rparr>\<rparr>)"
    by (simp_all add: verified_def)
  from two_phase_otp_flow [of form_start signin_values Map.empty
      "answered \<lparr>success = True, message = None, data = None :: unit option\<rparr>" verified
      signup_values] s(1) f
  have a: "map url (run_requests (SignInClient_onSubmit form_start signin_values Map.empty
        (answered \<lparr>success = True, message = None, data = None :: unit option\<rparr>) verified))
       = [''/auth/login''] \<and>
     otpSent (state (SignInClient_onSubmit form_start signin_values Map.empty
        (answered \<lparr>success = True, message = None, data = None :: unit option\<rparr>) verified)) \<and>
     destinations (SignInClient_onSubmit form_start signin_values Map.empty
        (answered \<lparr>success = True, message = None, data = None :: unit option\<rparr>) verified) = []"
    by blast
  from two_phase_otp_flow [of "form_start\<lparr>otpSent := True\<rparr>" signin_values Map.empty
      "answered \<lparr>success = True, message = None, data = None :: unit option\<rparr>" verified
      signup_values] s(2) v
  have b: "map payload (run_requests (SignInClient_onSubmit (form_start\<lparr>otpSent := True\<rparr>)
        signin_values Map.empty
        (answered \<lparr>success = True, message = None, data = None :: unit option\<rparr>) verified))
       = [Some (JObj [(''email'', JStr (email signin_values)),
                      (''otp'', JStr (or_else (otp signin_values) []))])] \<and>
     destinations (SignInClient_onSubmit (form_start\<lparr>otpSent := True\<rparr>) signin_values
        Map.empty (answered \<lparr>success = True, message = None, data = None :: unit option\<rparr>) verified)
       = [''/dashboard''] \<and>
     destinations (SignUpClient_onSubmit (form_start\<lparr>otpSent := True\<rparr>) signup_values
        Map.empty (answered \<lparr>success = True, message = None, data = None :: unit option\<rparr>) verified)
       = [''/dashboard'']"
    by blast
  have c: "email signin_values = ''ada@example.org''" "or_else (otp signin_values) [] = ''123456''"
    by (simp_all add: signin_values_def or_else_def)
  from a b c show ?thesis by simp
qed

section \<open>Errors of the notes operations\<close>

text \<open>
  The \<open>catch\<close> block of the dashboard's handlers does what it is written for when it is
  given an axios error: a 401 is a redirect to \<open>/signin\<close> with no message, any other
  axios error sets the server's message or the fallback and redirects nowhere.
\<close>

lemma catch_block_401:
  "error_status r = 401 \<Longrightarrow>
   catch_block fallback (AxiosError (Some r)) st = (st, [Push ''/signin''], None)"
  by (simp add: catch_block_def)

lemma catch_block_message:
  "error_status r \<noteq> 401 \<Longrightarrow> error_data r = Some d \<Longrightarrow>
   catch_block fallback (AxiosError (Some r)) st =
     (st\<lparr>error := Some (or_else (error_message d) fallback)\<rparr>, [], None)"
  by (simp add: catch_block_def response_data_message_strict_def)

lemma catch_block_no_response:
  "catch_block fallback (AxiosError None) st = (st\<lparr>error := Some fallback\<rparr>, [], None)"
  by (simp add: catch_block_def response_data_message_strict_def or_else_def)

text \<open>
  But the service never lets an axios error out: each of its methods catches it and
  throws a plain \<open>Error\<close> in its place, which the handlers' \<open>catch\<close> block ignores.
\<close>

lemma rethrow_not_axios: "\<not> isAxiosError (rethrow fallback err)"
  by (simp add: rethrow_def split: thrown.splits)

lemma catch_block_other: "\<not> isAxiosError err \<Longrightarrow> catch_block fallback err st = (st, [], None)"
  by (simp add: catch_block_def)

text \<open>
  So, whatever error the create-note or delete-note request fails with, the handler
  redirects nowhere and sets no error message; a failed fetch sets no message either
  (its only redirect is the one that \<open>getNotes\<close> itself does on a 401).
\<close>

lemma handleCreateNote_failure:
  "trim (newNoteTitle st) \<noteq> [] \<Longrightarrow>
   handleCreateNote st ls (Inl err) =
     \<lparr>state = st\<lparr>isCreating := False\<rparr>, run_storage = ls,
      run_requests = [send ls ''POST'' ''/notes'' []
         (Some (json_of_CreateNoteData
            \<lparr>create_title = newNoteTitle st, create_content = newNoteContent st\<rparr>))],
      run_href = None, router = [], rejected = None\<rparr>"
  by (simp add: handleCreateNote_def createNote_def Let_def catch_block_other rethrow_not_axios)

lemma handleDeleteNote_failure:
  "handleDeleteNote st ls i (Inl err) =
     \<lparr>state = st, run_storage = ls,
      run_requests = [send ls ''DELETE'' (''/notes/'' @ i) [] None],
      run_href = None, router = [], rejected = None\<rparr>"
  by (simp add: handleDeleteNote_def deleteNote_def Let_def catch_block_other rethrow_not_axios)

lemma fetchNotes_failure:
  "router (fetchNotes st ls (Inl err)) = [] \<and>
   state (fetchNotes st ls (Inl err)) = st\<lparr>isLoading := False\<rparr> \<and>
   rejected (fetchNotes st ls (Inl err)) = None"
  by (simp add: fetchNotes_def getNotes_def Let_def catch_block_other rethrow_not_axios
      del: toString.simps)

text \<open>
  Claim C4 does not hold of the code. On the dashboard with two notes and a stored
  token: a create-note or delete-note request refused with 401 sends the browser
  nowhere, and a create-note, delete-note or get-notes request refused with 500 and
  a message leaves the error message unset.
\<close>

theorem notes_errors_are_dropped:
  "destinations (handleCreateNote dashboard_open [''authToken'' \<mapsto> ''expired'']
      (refused 401 ''Unauthorized'')) = [] \<and>
   destinations (handleDeleteNote dashboard_open [''authToken'' \<mapsto> ''expired''] ''n1''
      (refused 401 ''Unauthorized'' :: thrown + (unit ApiResponse) AxiosResponse)) = [] \<and>
   error (state (handleCreateNote dashboard_open [''authToken'' \<mapsto> ''abc123'']
      (refused 500 ''Database unavailable''))) = None \<and>
   error (state (handleDeleteNote dashboard_open [''authToken'' \<mapsto> ''abc123''] ''n1''
      (refused 500 ''Database unavailable'' :: thrown + (unit ApiResponse) AxiosResponse))) = None \<and>
   error (state (fetchNotes dashboard_open [''authToken'' \<mapsto> ''abc123'']
      (refused 500 ''Database unavailable''))) = None"
proof -
  have "trim (newNoteTitle dashboard_open) \<noteq> []"
    by (simp add: dashboard_open_def trim_Ideas)
  then show ?thesis
    by (simp add: refused_def handleCreateNote_failure handleDeleteNote_failure
        fetchNotes_failure destinations_def dashboard_open_def)
qed

section \<open>The three authentication gates\<close>

text \<open>
  The two server-side gates, each on its own reading of the request. The middleware of
  src/unnamed/part\_006 sends a request under \<open>/dashboard\<close> to \<open>/signin\<close> when its check
  fails and a request under \<open>/signin\<close> or \<open>/signup\<close> to \<open>/dashboard\<close> when it
  succeeds; \<open>requireAuth\<close> and \<open>redirectIfAuthenticated\<close>, and the pages that call them,
  do the same on the result of the server auth check. The middleware of
  src/middleware.ts lets all three paths through.
\<close>

lemma server_side_gates:
  "(prefix ''/dashboard'' (pathname request) \<and> \<not> checkAuthentication fetch_profile request \<longrightarrow>
      redirect_path (middleware_006 fetch_profile request) = Some ''/signin'') \<and>
   (\<forall>r. fst (getServerAuth cookies fetch_profile) = Inr r \<and> \<not> isAuthenticated r \<longrightarrow>
      requireAuth cookies fetch_profile = RedirectTo ''/signin'' \<and>
      DashboardPage cookies fetch_profile = PageRedirect ''/signin'') \<and>
   ((prefix ''/signin'' (pathname request) \<or> prefix ''/signup'' (pathname request)) \<and>
      checkAuthentication fetch_profile request \<longrightarrow>
      redirect_path (middleware_006 fetch_profile request) = Some ''/dashboard'') \<and>
   (\<forall>r. fst (getServerAuth cookies fetch_profile) = Inr r \<and> isAuthenticated r \<longrightarrow>
      redirectIfAuthenticated cookies fetch_profile = RedirectTo ''/dashboard'' \<and>
      SignInPage cookies fetch_profile = PageRedirect ''/dashboard'' \<and>
      SignUpPage cookies fetch_profile = PageRedirect ''/dashboard'') \<and>
   (pathname request \<in> {''/dashboard'', ''/signin'', ''/signup''} \<longrightarrow> middleware request = Next)"
proof (intro conjI allI impI)
  assume "prefix ''/dashboard'' (pathname request) \<and> \<not> checkAuthentication fetch_profile request"
  then show "redirect_path (middleware_006 fetch_profile request) = Some ''/signin''"
    by (simp add: middleware_006_protected)
next
  fix r
  assume "fst (getServerAuth cookies fetch_profile) = Inr r \<and> \<not> isAuthenticated r"
  then show "requireAuth cookies fetch_profile = RedirectTo ''/signin''"
    and "DashboardPage cookies fetch_profile = PageRedirect ''/signin''"
    by (simp_all add: DashboardPage_def requireAuth_def requireAuth_of_def)
next
  assume "(prefix ''/signin'' (pathname request) \<or> prefix ''/signup'' (pathname request)) \<and>
      checkAuthentication fetch_profile request"
  then show "redirect_path (middleware_006 fetch_profile request) = Some ''/dashboard''"
    by (simp add: middleware_006_auth_route new_URL_def)
next
  fix r
  assume "fst (getServerAuth cookies fetch_profile) = Inr r \<and> isAuthenticated r"
  then show "redirectIfAuthenticated cookies fetch_profile = RedirectTo ''/dashboard''"
    and "SignInPage cookies fetch_profile = PageRedirect ''/dashboard''"
    and "SignUpPage cookies fetch_profile = PageRedirect ''/dashboard''"
    by (simp_all add: SignInPage_def SignUpPage_def redirectIfAuthenticated_def
        redirectIfAuthenticated_of_def)
next
  assume "pathname request \<in> {''/dashboard'', ''/signin'', ''/signup''}"
  then show "middleware request = Next"
    by (auto simp: middleware_def)
qed

text \<open>
  Claim C1 does not hold of the code: the third gate, the redirects of the dashboard
  client, never acts. Take a session that the backend refuses with 401, on the profile
  request and on the notes requests alike. The middleware of src/unnamed/part\_006 and
  the dashboard page send the request for \<open>/dashboard\<close> to \<open>/signin\<close>. The \<open>catch\<close> block
  of the dashboard client, handed the axios error, would call \<open>router.push("/signin")\<close>
  too. But the service hands it a plain \<open>Error\<close>: \<open>fetchNotes\<close> makes no router call
  (the browser leaves for \<open>/signin\<close> only because \<open>getNotes\<close> assigns
  \<open>window.location.href\<close>), and after a refused create or delete the browser is sent
  nowhere at all.
\<close>

theorem dashboard_redirects_never_fire:
  "redirect_path (middleware_006 profile_401 \<lparr>pathname = ''/dashboard'', cookie = Some ''authToken=expired''\<rparr>)
     = Some ''/signin'' \<and>
   DashboardPage (Inr [(''authToken'', ''expired'')]) profile_401 = PageRedirect ''/signin'' \<and>
   catch_block ''Failed to create note''
     (AxiosError (Some \<lparr>error_status = 401,
                          error_data = Some \<lparr>error_message = Some ''Unauthorized''\<rparr>\<rparr>))
     dashboard_open = (dashboard_open, [Push ''/signin''], None) \<and>
   router (fetchNotes dashboard_open [''authToken'' \<mapsto> ''expired'']
     (refused 401 ''Unauthorized'')) = [] \<and>
   destinations (handleCreateNote dashboard_open [''authToken'' \<mapsto> ''expired'']
     (refused 401 ''Unauthorized'')) = [] \<and>
   destinations (handleDeleteNote dashboard_open [''authToken'' \<mapsto> ''expired''] ''n1''
     (refused 401 ''Unauthorized'' :: thrown + (unit ApiResponse) AxiosResponse)) = []"
proof (intro conjI)
  show "redirect_path (middleware_006 profile_401
      \<lparr>pathname = ''/dashboard'', cookie = Some ''authToken=expired''\<rparr>) = Some ''/signin''"
    by (simp add: middleware_006_protected checkAuthentication_profile_401)
next
  have "fst (getServerAuth (Inr [(''authToken'', ''expired'')]) profile_401) = Inr unauthenticated"
    by (simp add: getServerAuth_def getServerAuth_try_def profile_401_def ok_def)
  then show "DashboardPage (Inr [(''authToken'', ''expired'')]) profile_401 = PageRedirect ''/signin''"
    by (simp add: DashboardPage_def requireAuth_def requireAuth_of_def unauthenticated_def)
next
  show "catch_block ''Failed to create note''
     (AxiosError (Some \<lparr>error_status = 401,
                          error_data = Some \<lparr>error_message = Some ''Unauthorized''\<rparr>\<rparr>))
     dashboard_open = (dashboard_open, [Push ''/signin''], None)"
    by (simp add: catch_block_401)
next
  show "router (fetchNotes dashboard_open [''authToken'' \<mapsto> ''expired'']
     (refused 401 ''Unauthorized'')) = []"
    by (simp add: refused_def fetchNotes_failure)
next
  have "trim (newNoteTitle dashboard_open) \<noteq> []"
    by (simp add: dashboard_open_def trim_Ideas)
  then show "destinations (handleCreateNote dashboard_open [''authToken'' \<mapsto> ''expired'']
     (refused 401 ''Unauthorized'')) = []"
    by (simp add: refused_def handleCreateNote_failure destinations_def)
next
  show "destinations (handleDeleteNote dashboard_open [''authToken'' \<mapsto> ''expired''] ''n1''
     (refused 401 ''Unauthorized'' :: thrown + (unit ApiResponse) AxiosResponse)) = []"
    by (simp add: refused_def handleDeleteNote_failure destinations_def)
qed

section \<open>Properties of the token handling\<close>

lemma send_Authorization:
  "headers (send ls m u ps body) ''Authorization'' =
     (case ls ''authToken'' of None \<Rightarrow> None
      | Some t \<Rightarrow> if t \<noteq> [] then Some (''Bearer '' @ t) else None)"
  by (simp add: send_def setupRequestInterceptor_def axios_request_def split: option.splits)

text \<open>A trimmed string does not end in white space, so a header that the code reads
  and that starts with \<open>Bearer \<close> has a token after it.\<close>

lemma trim_last_not_whitespace:
  assumes "trim s \<noteq> []"
  shows "\<not> js_whitespace (last (trim s))"
proof -
  from assms have ne: "dropWhile js_whitespace (rev (dropWhile js_whitespace s)) \<noteq> []"
    by (simp add: trim_def)
  then have "\<not> js_whitespace (hd (dropWhile js_whitespace (rev (dropWhile js_whitespace s))))"
    by (rule hd_dropWhile)
  moreover have "last (trim s) = hd (dropWhile js_whitespace (rev (dropWhile js_whitespace s)))"
    using ne by (simp add: trim_def last_rev)
  ultimately show ?thesis by simp
qed

lemma Bearer_only: "prefix ''Bearer '' h \<Longrightarrow> drop 7 h = [] \<Longrightarrow> h = ''Bearer ''"
  by (auto simp: prefix_def)

lemma trimmed_Bearer_token:
  assumes "prefix ''Bearer '' (trim s)"
  shows "drop 7 (trim s) \<noteq> []"
proof
  assume "drop 7 (trim s) = []"
  with assms have e: "trim s = ''Bearer ''" by (rule Bearer_only)
  then have "trim s \<noteq> []" by simp
  then have "\<not> js_whitespace (last (trim s))" by (rule trim_last_not_whitespace)
  with e show False by (simp add: js_whitespace_def)
qed

lemma response_header_Bearer_token:
  assumes "response_header response name = Some h" and "prefix ''Bearer '' h"
  shows "drop 7 h \<noteq> []"
proof -
  from assms(1) obtain s where "h = trim s"
    by (auto simp: response_header_def)
  with assms(2) show ?thesis
    using trimmed_Bearer_token by blast
qed

lemma verifyOTP_stores:
  "response_header response ''authorization'' = Some h \<Longrightarrow> prefix ''Bearer '' h \<Longrightarrow>
   storage (verifyOTP ls otpData (Inr response)) = ls(''authToken'' \<mapsto> drop 7 h)"
  by (auto simp: verifyOTP_def)

text \<open>A header written as \<open>Bearer\<close> and a space reaches the code as \<open>Bearer\<close>, which
  does not start with \<open>Bearer \<close>: nothing is stored.\<close>

lemma bare_Bearer_is_not_stored:
  "storage (verifyOTP ls otpData
      (Inr \<lparr>response_headers = [''authorization'' \<mapsto> ''Bearer ''], response_data = body\<rparr>)) = ls"
  by (simp add: verifyOTP_def response_header_def trim_def js_whitespace_def)

lemma verifyOTP_storage_cases:
  "storage (verifyOTP ls otpData outcome) = ls \<or>
   (\<exists>answer h. outcome = Inr answer \<and>
      response_header answer ''authorization'' = Some h \<and> prefix ''Bearer '' h \<and>
      storage (verifyOTP ls otpData outcome) = ls(''authToken'' \<mapsto> drop 7 h))"
proof (cases outcome)
  case (Inl err)
  then show ?thesis by (simp add: verifyOTP_def)
next
  case (Inr response)
  show ?thesis
  proof (cases "response_header response ''authorization''")
    case None
    with Inr show ?thesis by (simp add: verifyOTP_def)
  next
    case (Some h)
    show ?thesis
    proof (cases "prefix ''Bearer '' h")
      case True
      with Some
      have "storage (verifyOTP ls otpData (Inr response)) = ls(''authToken'' \<mapsto> drop 7 h)"
        by (rule verifyOTP_stores)
      then show ?thesis
        using Inr Some True by blast
    next
      case False
      with Inr Some show ?thesis by (simp add: verifyOTP_def)
    qed
  qed
qed

lemma requests_attach_token:
  "ls ''authToken'' = Some t \<Longrightarrow> t \<noteq> [] \<Longrightarrow>
   map (\<lambda>q. headers q ''Authorization'') (requests (signup ls userData o1)) = [Some (''Bearer '' @ t)] \<and>
   map (\<lambda>q. headers q ''Authorization'') (requests (verifyOTP ls otpData o2)) = [Some (''Bearer '' @ t)] \<and>
   map (\<lambda>q. headers q ''Authorization'') (requests (login ls loginData o3)) = [Some (''Bearer '' @ t)] \<and>
   map (\<lambda>q. headers q ''Authorization'') (requests (resendOTP ls address o4)) = [Some (''Bearer '' @ t)] \<and>
   map (\<lambda>q. headers q ''Authorization'') (requests (getProfile ls o5)) = [Some (''Bearer '' @ t)] \<and>
   map (\<lambda>q. headers q ''Authorization'') (requests (getNotes ls page limit search o6)) = [Some (''Bearer '' @ t)] \<and>
   map (\<lambda>q. headers q ''Authorization'') (requests (createNote ls noteData o7)) = [Some (''Bearer '' @ t)] \<and>
   map (\<lambda>q. headers q ''Authorization'') (requests (updateNote ls i changes o8)) = [Some (''Bearer '' @ t)] \<and>
   map (\<lambda>q. headers q ''Authorization'') (requests (deleteNote ls i o9)) = [Some (''Bearer '' @ t)] \<and>
   map (\<lambda>q. headers q ''Authorization'') (requests (getNoteById ls i o10)) = [Some (''Bearer '' @ t)] \<and>
   map (\<lambda>q. headers q ''Authorization'') (requests (logout ls o11)) = [Some (''Bearer '' @ t)]"
  by (simp add: signup_def verifyOTP_def login_def resendOTP_def getProfile_def getNotes_def
      createNote_def updateNote_def deleteNote_def getNoteById_def logout_def
      send_Authorization Let_def del: toString.simps)

lemma no_renewal:
  "storage (signup ls userData o1) = ls \<and>
   storage (login ls loginData o3) = ls \<and>
   storage (resendOTP ls address o4) = ls \<and>
   storage (getProfile ls o5) = ls \<and>
   storage (createNote ls noteData o7) = ls \<and>
   storage (updateNote ls i changes o8) = ls \<and>
   storage (deleteNote ls i o9) = ls \<and>
   storage (getNoteById ls i o10) = ls \<and>
   (storage (getNotes ls page limit search o6) = ls \<or>
    storage (getNotes ls page limit search o6) = ls(''authToken'' := None)) \<and>
   (storage (logout ls o11) = ls \<or> storage (logout ls o11) = ls(''authToken'' := None)) \<and>
   (storage (verifyOTP ls otpData o2) = ls \<or>
    (\<exists>answer h. o2 = Inr answer \<and>
       response_header answer ''authorization'' = Some h \<and> prefix ''Bearer '' h \<and>
       storage (verifyOTP ls otpData o2) = ls(''authToken'' \<mapsto> drop 7 h)))"
proof -
  have "storage (signup ls userData o1) = ls" "storage (login ls loginData o3) = ls"
    "storage (resendOTP ls address o4) = ls" "storage (getProfile ls o5) = ls"
    "storage (createNote ls noteData o7) = ls" "storage (updateNote ls i changes o8) = ls"
    "storage (deleteNote ls i o9) = ls" "storage (getNoteById ls i o10) = ls"
    by (simp_all add: signup_def login_def resendOTP_def getProfile_def createNote_def
        updateNote_def deleteNote_def getNoteById_def)
  moreover have "storage (getNotes ls page limit search o6) = ls \<or>
      storage (getNotes ls page limit search o6) = ls(''authToken'' := None)"
    by (simp add: getNotes_def Let_def del: toString.simps)
  moreover have "storage (logout ls o11) = ls \<or> storage (logout ls o11) = ls(''authToken'' := None)"
    by (simp add: logout_def split: sum.splits)
  moreover note verifyOTP_storage_cases [of ls otpData o2]
  ultimately show ?thesis
    by (intro conjI)
qed

text \<open>
  Claim C6. Token handling is storage-only. When the response to a verified OTP
  carries an \<open>authorization\<close> header that starts with \<open>Bearer \<close>, \<open>verifyOTP\<close> stores
  the rest of the header under \<open>authToken\<close> in \<open>localStorage\<close>; and from then on, in
  every state of \<open>localStorage\<close> that holds that token, the request that each method of
  the service sends carries it as \<open>Authorization: Bearer\<close> followed by the token.
  And nothing renews or refreshes the token: every method other than \<open>verifyOTP\<close>
  leaves \<open>localStorage\<close> as it was, except that \<open>getNotes\<close> and \<open>logout\<close> may remove
  the token; \<open>verifyOTP\<close> changes it only to the token of such a header of its own
  response.
\<close>

theorem token_is_stored_and_attached:
  "(\<forall>h. response_header response ''authorization'' = Some h \<and> prefix ''Bearer '' h \<longrightarrow>
      storage (verifyOTP ls otpData (Inr response)) ''authToken'' = Some (drop 7 h) \<and>
      (\<forall>later. later ''authToken'' = Some (drop 7 h) \<longrightarrow>
         map (\<lambda>q. headers q ''Authorization'') (requests (signup later userData o1)) = [Some (''Bearer '' @ drop 7 h)] \<and>
         map (\<lambda>q. headers q ''Authorization'') (requests (verifyOTP later otpData o2)) = [Some (''Bearer '' @ drop 7 h)] \<and>
         map (\<lambda>q. headers q ''Authorization'') (requests (login later loginData o3)) = [Some (''Bearer '' @ drop 7 h)] \<and>
         map (\<lambda>q. headers q ''Authorization'') (requests (resendOTP later address o4)) = [Some (''Bearer '' @ drop 7 h)] \<and>
         map (\<lambda>q. headers q ''Authorization'') (requests (getProfile later o5)) = [Some (''Bearer '' @ drop 7 h)] \<and>
         map (\<lambda>q. headers q ''Authorization'') (requests (getNotes later page limit search o6)) = [Some (''Bearer '' @ drop 7 h)] \<and>
         map (\<lambda>q. headers q ''Authorization'') (requests (createNote later noteData o7)) = [Some (''Bearer '' @ drop 7 h)] \<and>
         map (\<lambda>q. headers q ''Authorization'') (requests (updateNote later i changes o8)) = [Some (''Bearer '' @ drop 7 h)] \<and>
         map (\<lambda>q. headers q ''Authorization'') (requests (deleteNote later i o9)) = [Some (''Bearer '' @ drop 7 h)] \<and>
         map (\<lambda>q. headers q ''Authorization'') (requests (getNoteById later i o10)) = [Some (''Bearer '' @ drop 7 h)] \<and>
         map (\<lambda>q. headers q ''Authorization'') (requests (logout later o11)) = [Some (''Bearer '' @ drop 7 h)])) \<and>
   storage (signup ls userData o1) = ls \<and>
   storage (login ls loginData o3) = ls \<and>
   storage (resendOTP ls address o4) = ls \<and>
   storage (getProfile ls o5) = ls \<and>
   storage (createNote ls noteData o7) = ls \<and>
   storage (updateNote ls i changes o8) = ls \<and>
   storage (deleteNote ls i o9) = ls \<and>
   storage (getNoteById ls i o10) = ls \<and>
   (storage (getNotes ls page limit search o6) = ls \<or>
    storage (getNotes ls page limit search o6) = ls(''authToken'' := None)) \<and>
   (storage (logout ls o11) = ls \<or> storage (logout ls o11) = ls(''authToken'' := None)) \<and>
   (storage (verifyOTP ls otpData o2) = ls \<or>
    (\<exists>answer h. o2 = Inr answer \<and>
       response_header answer ''authorization'' = Some h \<and> prefix ''Bearer '' h \<and>
       storage (verifyOTP ls otpData o2) = ls(''authToken'' \<mapsto> drop 7 h)))"
proof -
  have stored: "\<forall>h. response_header response ''authorization'' = Some h \<and> prefix ''Bearer '' h \<longrightarrow>
      storage (verifyOTP ls otpData (Inr response)) ''authToken'' = Some (drop 7 h) \<and>
      (\<forall>later. later ''authToken'' = Some (drop 7 h) \<longrightarrow>
         map (\<lambda>q. headers q ''Authorization'') (requests (signup later userData o1)) = [Some (''Bearer '' @ drop 7 h)] \<and>
         map (\<lambda>q. headers q ''Authorization'') (requests (verifyOTP later otpData o2)) = [Some (''Bearer '' @ drop 7 h)] \<and>
         map (\<lambda>q. headers q ''Authorization'') (requests (login later loginData o3)) = [Some (''Bearer '' @ drop 7 h)] \<and>
         map (\<lambda>q. headers q ''Authorization'') (requests (resendOTP later address o4)) = [Some (''Bearer '' @ drop 7 h)] \<and>
         map (\<lambda>q. headers q ''Authorization'') (requests (getProfile later o5)) = [Some (''Bearer '' @ drop 7 h)] \<and>
         map (\<lambda>q. headers q ''Authorization'') (requests (getNotes later page limit search o6)) = [Some (''Bearer '' @ drop 7 h)] \<and>
         map (\<lambda>q. headers q ''Authorization'') (requests (createNote later noteData o7)) = [Some (''Bearer '' @ drop 7 h)] \<and>
         map (\<lambda>q. headers q ''Authorization'') (requests (updateNote later i changes o8)) = [Some (''Bearer '' @ drop 7 h)] \<and>
         map (\<lambda>q. headers q ''Authorization'') (requests (deleteNote later i o9)) = [Some (''Bearer '' @ drop 7 h)] \<and>
         map (\<lambda>q. headers q ''Authorization'') (requests (getNoteById later i o10)) = [Some (''Bearer '' @ drop 7 h)] \<and>
         map (\<lambda>q. headers q ''Authorization'') (requests (logout later o11)) = [Some (''Bearer '' @ drop 7 h)])"
  proof (intro allI impI)
    fix h
    assume "response_header response ''authorization'' = Some h \<and> prefix ''Bearer '' h"
    then have h: "response_header response ''authorization'' = Some h" "prefix ''Bearer '' h"
      by simp_all
    then have token: "drop 7 h \<noteq> []"
      by (rule response_header_Bearer_token)
    have a: "storage (verifyOTP ls otpData (Inr response)) ''authToken'' = Some (drop 7 h)"
      using h by (simp add: verifyOTP_stores)
    have b: "\<forall>later. later ''authToken'' = Some (drop 7 h) \<longrightarrow>
         map (\<lambda>q. headers q ''Authorization'') (requests (signup later userData o1)) = [Some (''Bearer '' @ drop 7 h)] \<and>
         map (\<lambda>q. headers q ''Authorization'') (requests (verifyOTP later otpData o2)) = [Some (''Bearer '' @ drop 7 h)] \<and>
         map (\<lambda>q. headers q ''Authorization'') (requests (login later loginData o3)) = [Some (''Bearer '' @ drop 7 h)] \<and>
         map (\<lambda>q. headers q ''Authorization'') (requests (resendOTP later address o4)) = [Some (''Bearer '' @ drop 7 h)] \<and>
         map (\<lambda>q. headers q ''Authorization'') (requests (getProfile later o5)) = [Some (''Bearer '' @ drop 7 h)] \<and>
         map (\<lambda>q. headers q ''Authorization'') (requests (getNotes later page limit search o6)) = [Some (''Bearer '' @ drop 7 h)] \<and>
         map (\<lambda>q. headers q ''Authorization'') (requests (createNote later noteData o7)) = [Some (''Bearer '' @ drop 7 h)] \<and>
         map (\<lambda>q. headers q ''Authorization'') (requests (updateNote later i changes o8)) = [Some (''Bearer '' @ drop 7 h)] \<and>
         map (\<lambda>q. headers q ''Authorization'') (requests (deleteNote later i o9)) = [Some (''Bearer '' @ drop 7 h)] \<and>
         map (\<lambda>q. headers q ''Authorization'') (requests (getNoteById later i o10)) = [Some (''Bearer '' @ drop 7 h)] \<and>
         map (\<lambda>q. headers q ''Authorization'') (requests (logout later o11)) = [Some (''Bearer '' @ drop 7 h)]"
    proof (intro allI impI)
      fix later :: localStorage
      assume "later ''authToken'' = Some (drop 7 h)"
      from this token
      show "map (\<lambda>q. headers q ''Authorization'') (requests (signup later userData o1)) = [Some (''Bearer '' @ drop 7 h)] \<and>
         map (\<lambda>q. headers q ''Authorization'') (requests (verifyOTP later otpData o2)) = [Some (''Bearer '' @ drop 7 h)] \<and>
         map (\<lambda>q. headers q ''Authorization'') (requests (login later loginData o3)) = [Some (''Bearer '' @ drop 7 h)] \<and>
         map (\<lambda>q. headers q ''Authorization'') (requests (resendOTP later address o4)) = [Some (''Bearer '' @ drop 7 h)] \<and>
         map (\<lambda>q. headers q ''Authorization'') (requests (getProfile later o5)) = [Some (''Bearer '' @ drop 7 h)] \<and>
         map (\<lambda>q. headers q ''Authorization'') (requests (getNotes later page limit search o6)) = [Some (''Bearer '' @ drop 7 h)] \<and>
         map (\<lambda>q. headers q ''Authorization'') (requests (createNote later noteData o7)) = [Some (''Bearer '' @ drop 7 h)] \<and>
         map (\<lambda>q. headers q ''Authorization'') (requests (updateNote later i changes o8)) = [Some (''Bearer '' @ drop 7 h)] \<and>
         map (\<lambda>q. headers q ''Authorization'') (requests (deleteNote later i o9)) = [Some (''Bearer '' @ drop 7 h)] \<and>
         map (\<lambda>q. headers q ''Authorization'') (requests (getNoteById later i o10)) = [Some (''Bearer '' @ drop 7 h)] \<and>
         map (\<lambda>q. headers q ''Authorization'') (requests (logout later o11)) = [Some (''Bearer '' @ drop 7 h)]"
        by (rule requests_attach_token)
    qed
    from a b
    show "storage (verifyOTP ls otpData (Inr response)) ''authToken'' = Some (drop 7 h) \<and>
      (\<forall>later. later ''authToken'' = Some (drop 7 h) \<longrightarrow>
         map (\<lambda>q. headers q ''Authorization'') (requests (signup later userData o1)) = [Some (''Bearer '' @ drop 7 h)] \<and>
         map (\<lambda>q. headers q ''Authorization'') (requests (verifyOTP later otpData o2)) = [Some (''Bearer '' @ drop 7 h)] \<and>
         map (\<lambda>q. headers q ''Authorization'') (requests (login later loginData o3)) = [Some (''Bearer '' @ drop 7 h)] \<and>
         map (\<lambda>q. headers q ''Authorization'') (requests (resendOTP later address o4)) = [Some (''Bearer '' @ drop 7 h)] \<and>
         map (\<lambda>q. headers q ''Authorization'') (requests (getProfile later o5)) = [Some (''Bearer '' @ drop 7 h)] \<and>
         map (\<lambda>q. headers q ''Authorization'') (requests (getNotes later page limit search o6)) = [Some (''Bearer '' @ drop 7 h)] \<and>
         map (\<lambda>q. headers q ''Authorization'') (requests (createNote later noteData o7)) = [Some (''Bearer '' @ drop 7 h)] \<and>
         map (\<lambda>q. headers q ''Authorization'') (requests (updateNote later i changes o8)) = [Some (''Bearer '' @ drop 7 h)] \<and>
         map (\<lambda>q. headers q ''Authorization'') (requests (deleteNote later i o9)) = [Some (''Bearer '' @ drop 7 h)] \<and>
         map (\<lambda>q. headers q ''Authorization'') (requests (getNoteById later i o10)) = [Some (''Bearer '' @ drop 7 h)] \<and>
         map (\<lambda>q. headers q ''Authorization'') (requests (logout later o11)) = [Some (''Bearer '' @ drop 7 h)])"
      by (rule conjI)
  qed
  show ?thesis
    by (rule conjI [OF stored no_renewal])
qed

text \<open>
  The theorem on a verified OTP whose response carries \<open>Bearer abc123\<close>: the token
  \<open>abc123\<close> is stored, and the profile request made on the resulting \<open>localStorage\<close>
  carries it.
\<close>

theorem token_is_stored_and_attached_witness:
  "storage (verifyOTP Map.empty \<lparr>verify_email = ''ada@example.org'', verify_otp = ''123456''\<rparr>
      verified) ''authToken'' = Some ''abc123'' \<and>
   map (\<lambda>q. headers q ''Authorization'')
     (requests (getProfile
        (storage (verifyOTP Map.empty
           \<lparr>verify_email = ''ada@example.org'', verify_otp = ''123456''\<rparr> verified))
        (answered \<lparr>success = True, message = None, data = None :: unit option\<rparr>)))
     = [Some ''Bearer abc123'']"
proof -
  have h: "response_header \<lparr>response_headers = [''authorization'' \<mapsto> ''Bearer abc123''],
          response_data = \<lparr>success = True, message = None, data = None :: unit option\<rparr>\<rparr>
          ''authorization'' = Some ''Bearer abc123''"
    "prefix ''Bearer '' ''Bearer abc123''"
    by (simp_all add: response_header_def trim_def js_whitespace_def)
  note both = token_is_stored_and_attached [where
      response = "\<lparr>response_headers = [''authorization'' \<mapsto> ''Bearer abc123''],
          response_data = \<lparr>success = True, message = None, data = None :: unit option\<rparr>\<rparr>"
      and ls = Map.empty
      and otpData = "\<lparr>verify_email = ''ada@example.org'', verify_otp = ''123456''\<rparr>"
      and ?o5.0 = "answered \<lparr>success = True, message = None, data = None :: unit option\<rparr>",
      THEN conjunct1, rule_format, OF conjI [OF h]]
  from both [THEN conjunct1]
  have a: "storage (verifyOTP Map.empty
      \<lparr>verify_email = ''ada@example.org'', verify_otp = ''123456''\<rparr> verified) ''authToken''
      = Some ''abc123''"
    by (simp add: verified_def)
  then have "storage (verifyOTP Map.empty
      \<lparr>verify_email = ''ada@example.org'', verify_otp = ''123456''\<rparr> verified) ''authToken''
      = Some (drop 7 ''Bearer abc123'')"
    by simp
  note both [THEN conjunct2,
      THEN spec [where x = "storage (verifyOTP Map.empty
        \<lparr>verify_email = ''ada@example.org'', verify_otp = ''123456''\<rparr> verified)"],
      THEN mp, OF this,
      THEN conjunct2, THEN conjunct2, THEN conjunct2, THEN conjunct2, THEN conjunct1]
  then have b: "map (\<lambda>q. headers q ''Authorization'')
     (requests (getProfile
        (storage (verifyOTP Map.empty
           \<lparr>verify_email = ''ada@example.org'', verify_otp = ''123456''\<rparr> verified))
        (answered \<lparr>success = True, message = None, data = None :: unit option\<rparr>)))
     = [Some ''Bearer abc123'']"
    by simp
  from a b show ?thesis by simp
qed

end
